theory Spec2Isabelle
  imports Main "HOL-Library.Word" "HOL-Library.Monad_Syntax"
begin

unbundle bit_operations_syntax

section \<open>Machine integers of the C++ source\<close>

type_synonym byte = "8 word"
type_synonym uint32 = "32 word"

text \<open>A value of type \<open>int\<close> of the source is an \<open>int\<close> here; where the source's
  arithmetic can leave the 32-bit range the wrap-around is written out with \<open>int32\<close>.\<close>

definition int32 :: "int \<Rightarrow> int" where
  "int32 x = signed_take_bit 31 x"

definition INT_MIN :: int where
  "INT_MIN = - 2147483648"

text \<open>Division and remainder of C++ truncate towards zero.\<close>

definition c_div :: "int \<Rightarrow> int \<Rightarrow> int" where
  "c_div a b = sgn a * sgn b * (\<bar>a\<bar> div \<bar>b\<bar>)"

definition c_mod :: "int \<Rightarrow> int \<Rightarrow> int" where
  "c_mod a b = a - b * c_div a b"

section \<open>Send engine: per-attempt timeout (res_send.cpp)\<close>

record timespec =
  tv_sec :: int
  tv_nsec :: int

text \<open>Modelled from the spec: \<open>res_params\<close> is declared in netd_resolv/params.h, which is
  not part of the sources at hand; the fields are the resolver parameters the spec lists
  (sample validity, success threshold, min/max samples, base timeout, retry count).\<close>

record res_params =
  sample_validity :: nat
  success_threshold :: nat
  min_samples :: nat
  max_samples :: nat
  base_timeout_msec :: int
  retry_count :: int

text \<open>\<open>get_timeout(statp, params, ns)\<close> reads \<open>statp->nscount\<close> and
  \<open>params->base_timeout_msec\<close>. The result is \<open>None\<close> where the C++ expression has no
  defined value: a shift by the width of \<open>int\<close> or more, a division by zero, and
  \<open>INT_MIN / -1\<close>.\<close>

definition get_timeout_msec :: "int \<Rightarrow> res_params \<Rightarrow> nat \<Rightarrow> int option" where
  "get_timeout_msec statp_nscount params ns =
     (if 32 \<le> ns then None
      else let msec = int32 (push_bit ns (base_timeout_msec params)) in
        if 0 < ns \<and> (statp_nscount = 0 \<or> (msec = INT_MIN \<and> statp_nscount = - 1)) then None
        else let msec = (if 0 < ns then c_div msec statp_nscount else msec);
                 msec = (if msec < 1000 then 1000 else msec)
             in Some msec)"

definition get_timeout :: "int \<Rightarrow> res_params \<Rightarrow> nat \<Rightarrow> timespec option" where
  "get_timeout statp_nscount params ns =
     (case get_timeout_msec statp_nscount params ns of
        None \<Rightarrow> None
      | Some msec \<Rightarrow> Some \<lparr>tv_sec = c_div msec 1000, tv_nsec = c_mod msec 1000 * 1000000\<rparr>)"

section \<open>Packet inspector (res_cache.cpp)\<close>

text \<open>A \<open>DnsPacket\<close> holds the pointers \<open>base\<close>, \<open>end\<close> and \<open>cursor\<close> into a buffer.
  Here \<open>base\<close> is the buffer's bytes, \<open>end\<close> is its length and \<open>cursor\<close> is an offset.\<close>

record DnsPacket =
  base :: "byte list"
  cursor :: nat

definition pend :: "DnsPacket \<Rightarrow> nat" where
  "pend packet = length (base packet)"

definition DNS_HEADER_SIZE :: nat where
  "DNS_HEADER_SIZE = 12"

definition DNS_TYPE_A :: "byte list" where "DNS_TYPE_A = [0, 1]"
definition DNS_TYPE_PTR :: "byte list" where "DNS_TYPE_PTR = [0, 12]"
definition DNS_TYPE_MX :: "byte list" where "DNS_TYPE_MX = [0, 15]"
definition DNS_TYPE_AAAA :: "byte list" where "DNS_TYPE_AAAA = [0, 28]"
definition DNS_TYPE_ALL :: "byte list" where "DNS_TYPE_ALL = [0, 255]"
definition DNS_CLASS_IN :: "byte list" where "DNS_CLASS_IN = [0, 1]"

definition dnsPacket_init :: "byte list \<Rightarrow> DnsPacket" where
  "dnsPacket_init buff = \<lparr>base = buff, cursor = 0\<rparr>"

definition dnsPacket_rewind :: "DnsPacket \<Rightarrow> DnsPacket" where
  "dnsPacket_rewind packet = packet\<lparr>cursor := 0\<rparr>"

definition dnsPacket_skip :: "DnsPacket \<Rightarrow> nat \<Rightarrow> DnsPacket" where
  "dnsPacket_skip packet count =
     (let p = cursor packet + count;
          p = (if p > pend packet then pend packet else p)
      in packet\<lparr>cursor := p\<rparr>)"

definition dnsPacket_readInt16 :: "DnsPacket \<Rightarrow> int \<times> DnsPacket" where
  "dnsPacket_readInt16 packet =
     (let p = cursor packet in
      if p + 2 > pend packet then (- 1, packet)
      else (push_bit 8 (uint (base packet ! p)) OR uint (base packet ! (p + 1)),
            packet\<lparr>cursor := p + 2\<rparr>))"

subsection \<open>Query checking\<close>

definition dnsPacket_checkBytes :: "DnsPacket \<Rightarrow> nat \<Rightarrow> byte list \<Rightarrow> bool \<times> DnsPacket" where
  "dnsPacket_checkBytes packet numBytes bytes =
     (let p = cursor packet in
      if p + numBytes > pend packet then (False, packet)
      else if take numBytes (drop p (base packet)) \<noteq> take numBytes bytes then (False, packet)
      else (True, packet\<lparr>cursor := p + numBytes\<rparr>))"

text \<open>The loop of \<open>_dnsPacket_checkQName\<close>: \<open>Some p\<close> is the cursor after the
  terminating zero byte, \<open>None\<close> is malformed data.\<close>

function checkQName_loop :: "byte list \<Rightarrow> nat \<Rightarrow> nat option" where
  "checkQName_loop bs p =
     (if p \<ge> length bs then None
      else let c = unat (bs ! p); p = p + 1 in
        if c = 0 then Some p
        else if c \<ge> 64 then None
        else checkQName_loop bs (p + c))"
  by pat_completeness auto
termination
  by (relation "measure (\<lambda>(bs, p). length bs - p)") auto

declare checkQName_loop.simps [simp del]

definition dnsPacket_checkQName :: "DnsPacket \<Rightarrow> bool \<times> DnsPacket" where
  "dnsPacket_checkQName packet =
     (case checkQName_loop (base packet) (cursor packet) of
        Some p \<Rightarrow> (True, packet\<lparr>cursor := p\<rparr>)
      | None \<Rightarrow> (False, packet))"

definition dnsPacket_checkQR :: "DnsPacket \<Rightarrow> bool \<times> DnsPacket" where
  "dnsPacket_checkQR packet =
     (case dnsPacket_checkQName packet of
        (False, packet) \<Rightarrow> (False, packet)
      | (True, packet) \<Rightarrow>
          let (t, packet) = dnsPacket_checkBytes packet 2 DNS_TYPE_A;
              (t, packet) = (if t then (t, packet) else dnsPacket_checkBytes packet 2 DNS_TYPE_PTR);
              (t, packet) = (if t then (t, packet) else dnsPacket_checkBytes packet 2 DNS_TYPE_MX);
              (t, packet) = (if t then (t, packet) else dnsPacket_checkBytes packet 2 DNS_TYPE_AAAA);
              (t, packet) = (if t then (t, packet) else dnsPacket_checkBytes packet 2 DNS_TYPE_ALL)
          in if \<not> t then (False, packet)
             else dnsPacket_checkBytes packet 2 DNS_CLASS_IN)"

text \<open>The loop \<open>for (; qdCount > 0; qdCount--) if (!_dnsPacket_checkQR(packet)) return 0\<close>.\<close>

fun checkQRs :: "nat \<Rightarrow> DnsPacket \<Rightarrow> bool" where
  "checkQRs 0 packet = True"
| "checkQRs (Suc qdCount) packet =
     (case dnsPacket_checkQR packet of
        (False, _) \<Rightarrow> False
      | (True, packet) \<Rightarrow> checkQRs qdCount packet)"

definition dnsPacket_checkQuery :: "DnsPacket \<Rightarrow> bool" where
  "dnsPacket_checkQuery packet =
     (let p = base packet in
      if DNS_HEADER_SIZE > pend packet then False
      else if (p ! 2) AND 0xFC \<noteq> 0 \<or> (p ! 3) AND 0xCF \<noteq> 0 then False
      else let qdCount = push_bit 8 (unat (p ! 4)) OR unat (p ! 5);
               anCount = push_bit 8 (unat (p ! 6)) OR unat (p ! 7);
               dnCount = push_bit 8 (unat (p ! 8)) OR unat (p ! 9);
               arCount = push_bit 8 (unat (p ! 10)) OR unat (p ! 11)
           in if anCount \<noteq> 0 \<or> dnCount \<noteq> 0 \<or> arCount > 1 then False
              else if qdCount = 0 then False
              else checkQRs qdCount (packet\<lparr>cursor := DNS_HEADER_SIZE\<rparr>))"

subsection \<open>Query hashing\<close>

definition FNV_MULT :: uint32 where "FNV_MULT = 16777619"
definition FNV_BASIS :: uint32 where "FNV_BASIS = 2166136261"

text \<open>The loop of \<open>_dnsPacket_hashBytes\<close> is
  \<open>while (numBytes > 0 && p < end) hash = hash * FNV_MULT ^ *p++\<close>: the source does not
  count \<open>numBytes\<close> down, so a positive \<open>numBytes\<close> hashes up to the end of the packet.\<close>

function hashBytes_loop :: "byte list \<Rightarrow> nat \<Rightarrow> int \<Rightarrow> uint32 \<Rightarrow> uint32 \<times> nat" where
  "hashBytes_loop bs p numBytes hash =
     (if numBytes > 0 \<and> p < length bs
      then hashBytes_loop bs (p + 1) numBytes (hash * FNV_MULT XOR ucast (bs ! p))
      else (hash, p))"
  by pat_completeness auto
termination
  by (relation "measure (\<lambda>(bs, p, numBytes, hash). length bs - p)") auto

declare hashBytes_loop.simps [simp del]

definition dnsPacket_hashBytes :: "DnsPacket \<Rightarrow> int \<Rightarrow> uint32 \<Rightarrow> uint32 \<times> DnsPacket" where
  "dnsPacket_hashBytes packet numBytes hash =
     (let (hash, p) = hashBytes_loop (base packet) (cursor packet) numBytes hash
      in (hash, packet\<lparr>cursor := p\<rparr>))"

text \<open>The inner loop of \<open>_dnsPacket_hashQName\<close>,
  \<open>while (c > 0) { hash = hash * FNV_MULT ^ *p++; c -= 1; }\<close>; it ends with \<open>p\<close>
  advanced by \<open>c\<close>.\<close>

fun hashLabel :: "byte list \<Rightarrow> nat \<Rightarrow> nat \<Rightarrow> uint32 \<Rightarrow> uint32" where
  "hashLabel bs p 0 hash = hash"
| "hashLabel bs p (Suc c) hash = hashLabel bs (p + 1) c (hash * FNV_MULT XOR ucast (bs ! p))"

function hashQName_loop :: "byte list \<Rightarrow> nat \<Rightarrow> uint32 \<Rightarrow> uint32 \<times> nat" where
  "hashQName_loop bs p hash =
     (if p \<ge> length bs then (hash, p)
      else let c = unat (bs ! p); p = p + 1 in
        if c = 0 then (hash, p)
        else if c \<ge> 64 then (hash, p)
        else if p + c \<ge> length bs then (hash, p)
        else hashQName_loop bs (p + c) (hashLabel bs p c hash))"
  by pat_completeness auto
termination
  by (relation "measure (\<lambda>(bs, p, hash). length bs - p)") auto

declare hashQName_loop.simps [simp del]

definition dnsPacket_hashQName :: "DnsPacket \<Rightarrow> uint32 \<Rightarrow> uint32 \<times> DnsPacket" where
  "dnsPacket_hashQName packet hash =
     (let (hash, p) = hashQName_loop (base packet) (cursor packet) hash
      in (hash, packet\<lparr>cursor := p\<rparr>))"

definition dnsPacket_hashQR :: "DnsPacket \<Rightarrow> uint32 \<Rightarrow> uint32 \<times> DnsPacket" where
  "dnsPacket_hashQR packet hash =
     (let (hash, packet) = dnsPacket_hashQName packet hash
      in dnsPacket_hashBytes packet 4 hash)"

definition dnsPacket_hashRR :: "DnsPacket \<Rightarrow> uint32 \<Rightarrow> uint32 \<times> DnsPacket" where
  "dnsPacket_hashRR packet hash =
     (let (hash, packet) = dnsPacket_hashQR packet hash;
          (hash, packet) = dnsPacket_hashBytes packet 4 hash;
          (rdlength, packet) = dnsPacket_readInt16 packet
      in dnsPacket_hashBytes packet rdlength hash)"

fun hashQRs :: "nat \<Rightarrow> DnsPacket \<Rightarrow> uint32 \<Rightarrow> uint32 \<times> DnsPacket" where
  "hashQRs 0 packet hash = (hash, packet)"
| "hashQRs (Suc count) packet hash =
     (let (hash, packet) = dnsPacket_hashQR packet hash in hashQRs count packet hash)"

fun hashRRs :: "nat \<Rightarrow> DnsPacket \<Rightarrow> uint32 \<Rightarrow> uint32 \<times> DnsPacket" where
  "hashRRs 0 packet hash = (hash, packet)"
| "hashRRs (Suc arcount) packet hash =
     (let (hash, packet) = dnsPacket_hashRR packet hash in hashRRs arcount packet hash)"

text \<open>\<open>_dnsPacket_hashQuery\<close> reads \<open>packet->base[2]\<close> without a bound check: on a buffer
  of fewer than three bytes the read is out of range and the result is \<open>None\<close>. A negative
  count (\<open>_dnsPacket_readInt16\<close> returned -1) runs its loop zero times, as \<open>nat\<close> does.\<close>

definition dnsPacket_hashQuery :: "DnsPacket \<Rightarrow> uint32 option" where
  "dnsPacket_hashQuery packet =
     (if pend packet < 3 then None
      else let hash = FNV_BASIS;
               packet = dnsPacket_rewind packet;
               packet = dnsPacket_skip packet 2;
               hash = hash * FNV_MULT XOR ucast ((base packet ! 2) AND 1);
               packet = dnsPacket_skip packet 1;
               (hash, packet) = dnsPacket_hashBytes packet 1 hash;
               (count, packet) = dnsPacket_readInt16 packet;
               packet = dnsPacket_skip packet 4;
               (arcount, packet) = dnsPacket_readInt16 packet;
               (hash, packet) = hashQRs (nat count) packet hash;
               (hash, packet) = hashRRs (nat arcount) packet hash
           in Some hash)"

subsection \<open>Query comparison\<close>

text \<open>The comparison functions return 1 or 0 in the source. Here the outer \<open>option\<close> is
  \<open>None\<close> where the source has no defined behaviour (a \<open>memcmp\<close> with a negative
  count, a read of \<open>base[2]\<close> or \<open>base[3]\<close> outside the buffer); otherwise the result is
  the returned truth value with both packets, whose cursors the source advances.\<close>

text \<open>The loop of \<open>_dnsPacket_isEqualDomainName\<close>: \<open>Some (p1, p2)\<close> are the cursors
  after two equal names, \<open>None\<close> is "not the same, or one is malformed".\<close>

function isEqualDomainName_loop ::
  "byte list \<Rightarrow> nat \<Rightarrow> byte list \<Rightarrow> nat \<Rightarrow> (nat \<times> nat) option" where
  "isEqualDomainName_loop bs1 p1 bs2 p2 =
     (if p1 \<ge> length bs1 \<or> p2 \<ge> length bs2 then None
      else let c1 = unat (bs1 ! p1); c2 = unat (bs2 ! p2); p1 = p1 + 1; p2 = p2 + 1 in
        if c1 \<noteq> c2 then None
        else if c1 = 0 then Some (p1, p2)
        else if c1 \<ge> 64 then None
        else if p1 + c1 > length bs1 \<or> p2 + c1 > length bs2 then None
        else if take c1 (drop p1 bs1) \<noteq> take c1 (drop p2 bs2) then None
        else isEqualDomainName_loop bs1 (p1 + c1) bs2 (p2 + c1))"
  by pat_completeness auto
termination
  by (relation "measure (\<lambda>(bs1, p1, bs2, p2). length bs1 - p1)") auto

declare isEqualDomainName_loop.simps [simp del]

definition dnsPacket_isEqualDomainName ::
  "DnsPacket \<Rightarrow> DnsPacket \<Rightarrow> bool \<times> DnsPacket \<times> DnsPacket" where
  "dnsPacket_isEqualDomainName pack1 pack2 =
     (case isEqualDomainName_loop (base pack1) (cursor pack1) (base pack2) (cursor pack2) of
        Some (p1, p2) \<Rightarrow> (True, pack1\<lparr>cursor := p1\<rparr>, pack2\<lparr>cursor := p2\<rparr>)
      | None \<Rightarrow> (False, pack1, pack2))"

definition dnsPacket_isEqualBytes ::
  "DnsPacket \<Rightarrow> DnsPacket \<Rightarrow> int \<Rightarrow> (bool \<times> DnsPacket \<times> DnsPacket) option" where
  "dnsPacket_isEqualBytes pack1 pack2 numBytes =
     (let p1 = cursor pack1; p2 = cursor pack2 in
      if int p1 + numBytes > int (pend pack1) \<or> int p2 + numBytes > int (pend pack2)
      then Some (False, pack1, pack2)
      else if numBytes < 0 then None
      else if take (nat numBytes) (drop p1 (base pack1)) \<noteq> take (nat numBytes) (drop p2 (base pack2))
      then Some (False, pack1, pack2)
      else Some (True, pack1\<lparr>cursor := p1 + nat numBytes\<rparr>, pack2\<lparr>cursor := p2 + nat numBytes\<rparr>))"

definition dnsPacket_isEqualQR ::
  "DnsPacket \<Rightarrow> DnsPacket \<Rightarrow> (bool \<times> DnsPacket \<times> DnsPacket) option" where
  "dnsPacket_isEqualQR pack1 pack2 =
     (case dnsPacket_isEqualDomainName pack1 pack2 of
        (False, pack1, pack2) \<Rightarrow> Some (False, pack1, pack2)
      | (True, pack1, pack2) \<Rightarrow> dnsPacket_isEqualBytes pack1 pack2 (2 + 2))"

definition dnsPacket_isEqualRR ::
  "DnsPacket \<Rightarrow> DnsPacket \<Rightarrow> (bool \<times> DnsPacket \<times> DnsPacket) option" where
  "dnsPacket_isEqualRR pack1 pack2 =
     do {
       (eq, pack1, pack2) \<leftarrow> dnsPacket_isEqualQR pack1 pack2;
       if \<not> eq then Some (False, pack1, pack2)
       else do {
         (eq, pack1, pack2) \<leftarrow> dnsPacket_isEqualBytes pack1 pack2 4;
         if \<not> eq then Some (False, pack1, pack2)
         else let (rdlength1, pack1) = dnsPacket_readInt16 pack1;
                  (rdlength2, pack2) = dnsPacket_readInt16 pack2
              in if rdlength1 \<noteq> rdlength2 then Some (False, pack1, pack2)
                 else dnsPacket_isEqualBytes pack1 pack2 rdlength1
       }
     }"

fun isEqualQRs :: "nat \<Rightarrow> DnsPacket \<Rightarrow> DnsPacket \<Rightarrow> (bool \<times> DnsPacket \<times> DnsPacket) option" where
  "isEqualQRs 0 pack1 pack2 = Some (True, pack1, pack2)"
| "isEqualQRs (Suc count1) pack1 pack2 =
     do {
       (eq, pack1, pack2) \<leftarrow> dnsPacket_isEqualQR pack1 pack2;
       if \<not> eq then Some (False, pack1, pack2) else isEqualQRs count1 pack1 pack2
     }"

fun isEqualRRs :: "nat \<Rightarrow> DnsPacket \<Rightarrow> DnsPacket \<Rightarrow> (bool \<times> DnsPacket \<times> DnsPacket) option" where
  "isEqualRRs 0 pack1 pack2 = Some (True, pack1, pack2)"
| "isEqualRRs (Suc arcount1) pack1 pack2 =
     do {
       (eq, pack1, pack2) \<leftarrow> dnsPacket_isEqualRR pack1 pack2;
       if \<not> eq then Some (False, pack1, pack2) else isEqualRRs arcount1 pack1 pack2
     }"

definition dnsPacket_isEqualQuery :: "DnsPacket \<Rightarrow> DnsPacket \<Rightarrow> bool option" where
  "dnsPacket_isEqualQuery pack1 pack2 =
     (let pack1 = dnsPacket_rewind pack1; pack2 = dnsPacket_rewind pack2 in
      if pend pack1 < 4 \<or> pend pack2 < 4 then None
      else if (base pack1 ! 2) AND 1 \<noteq> (base pack2 ! 2) AND 1 then Some False
      else if base pack1 ! 3 \<noteq> base pack2 ! 3 then Some False
      else let pack1 = dnsPacket_skip pack1 4; pack2 = dnsPacket_skip pack2 4;
               (count1, pack1) = dnsPacket_readInt16 pack1;
               (count2, pack2) = dnsPacket_readInt16 pack2
           in if count1 \<noteq> count2 \<or> count1 < 0 then Some False
              else let pack1 = dnsPacket_skip pack1 4; pack2 = dnsPacket_skip pack2 4;
                       (arcount1, pack1) = dnsPacket_readInt16 pack1;
                       (arcount2, pack2) = dnsPacket_readInt16 pack2
                   in if arcount1 \<noteq> arcount2 \<or> arcount1 < 0 then Some False
                      else do {
                        (eq, pack1, pack2) \<leftarrow> isEqualQRs (nat count1) pack1 pack2;
                        if \<not> eq then Some False
                        else do {
                          (eq, pack1, pack2) \<leftarrow> isEqualRRs (nat arcount1) pack1 pack2;
                          Some eq
                        }
                      })"

subsection \<open>Variants of a query\<close>

text \<open>\<open>same_from k bs bs'\<close>: two buffers of the same length that agree from offset \<open>k\<close>
  on. \<open>variant q q'\<close>: \<open>q'\<close> is \<open>q\<close> with any transaction id (bytes 0 and 1) and any TC
  bit (bit \<open>0x02\<close> of byte 2).\<close>

definition same_from :: "nat \<Rightarrow> byte list \<Rightarrow> byte list \<Rightarrow> bool" where
  "same_from k bs bs' = (length bs' = length bs \<and> drop k bs' = drop k bs)"

definition variant :: "byte list \<Rightarrow> byte list \<Rightarrow> bool" where
  "variant q q' = (same_from 3 q q' \<and> (q' ! 2) AND 0xFD = (q ! 2) AND 0xFD)"

section \<open>External collaborators\<close>

text \<open>The answer parser (\<open>ns_initparse\<close>, \<open>ns_parserr\<close>, \<open>dn_skipname\<close> of
  arpa/nameser.h), the numeric address parser \<open>getaddrinfo_numeric\<close> and the configuration
  flags read by \<open>GetServerConfigurableFlag\<close> are not part of res_cache.cpp. They are taken
  as parameters, collected in one record.

  A parsed message is given by what \<open>ns_parserr\<close> returns for each index of the answer
  and the authority section: \<open>Some rr\<close> when the call returns 0, \<open>None\<close> otherwise; the
  section counts of \<open>ns_msg_count\<close> are the lengths of the two lists.
  \<open>dn_skipname\<close> gets the bytes from \<open>rdata\<close> up to \<open>edata\<close> and returns the length of
  the name at their start, or -1. A flag is \<open>Some v\<close> when \<open>ParseInt\<close> accepts its text.\<close>

record ns_rr =
  rr_type :: nat
  rr_ttl :: uint32
  rr_rdata :: "byte list"

record ns_msg =
  msg_an :: "ns_rr option list"
  msg_ns :: "ns_rr option list"

type_synonym addrinfo = string

record externals =
  ns_initparse :: "byte list \<Rightarrow> ns_msg option"
  dn_skipname :: "byte list \<Rightarrow> int"
  getaddrinfo_numeric :: "string \<Rightarrow> addrinfo option"
  flag_retry_count :: "int option"
  flag_retransmission_time_interval :: "int option"

definition ns_t_soa :: nat where "ns_t_soa = 6"
definition NS_INT32SZ :: nat where "NS_INT32SZ = 4"

definition EINVAL :: int where "EINVAL = 22"
definition ENONET :: int where "ENONET = 64"
definition EEXIST :: int where "EEXIST = 17"
definition ENOMEM :: int where "ENOMEM = 12"
definition ESRCH :: int where "ESRCH = 3"
definition ETIMEDOUT :: int where "ETIMEDOUT = 110"

text \<open>Flags of android/multinetwork.h (\<open>ResNsendFlags\<close>).\<close>

definition ANDROID_RESOLV_NO_RETRY :: uint32 where "ANDROID_RESOLV_NO_RETRY = 1"
definition ANDROID_RESOLV_NO_CACHE_STORE :: uint32 where "ANDROID_RESOLV_NO_CACHE_STORE = 2"
definition ANDROID_RESOLV_NO_CACHE_LOOKUP :: uint32 where "ANDROID_RESOLV_NO_CACHE_LOOKUP = 4"

section \<open>TTL of an answer (res_cache.cpp)\<close>

text \<open>\<open>ntohl(*reinterpret_cast<const uint32_t*>(rdata))\<close>: the four bytes at \<open>rdata\<close>
  in network byte order.\<close>

definition ntohl_at :: "byte list \<Rightarrow> uint32" where
  "ntohl_at rdata =
     push_bit 24 (ucast (rdata ! 0)) OR push_bit 16 (ucast (rdata ! 1))
       OR push_bit 8 (ucast (rdata ! 2)) OR ucast (rdata ! 3)"

text \<open>The body of the loop of \<open>answer_getNegativeTTL\<close> for the record at index \<open>n\<close>;
  every \<open>continue\<close> of the source leaves \<open>result\<close> as it is.\<close>

definition negativeTTL_step :: "externals \<Rightarrow> nat \<Rightarrow> ns_rr option \<Rightarrow> uint32 \<Rightarrow> uint32" where
  "negativeTTL_step ext n parsed result =
     (case parsed of
        None \<Rightarrow> result
      | Some rr \<Rightarrow>
          if rr_type rr \<noteq> ns_t_soa then result
          else let rdata = rr_rdata rr;
                   rec_result = rr_ttl rr;
                   len = dn_skipname ext rdata
               in if len = - 1 then result
                  else let rdata = drop (nat len) rdata;
                           len = dn_skipname ext rdata
                       in if len = - 1 then result
                          else let rdata = drop (nat len) rdata in
                            if length rdata \<noteq> 5 * NS_INT32SZ then result
                            else let rdata = drop (NS_INT32SZ * 4) rdata;
                                     ttl = ntohl_at rdata;
                                     rec_result = (if ttl < rec_result then ttl else rec_result)
                                 in if n = 0 \<or> rec_result < result then rec_result else result)"

fun negativeTTL_loop :: "externals \<Rightarrow> ns_rr option list \<Rightarrow> nat \<Rightarrow> uint32 \<Rightarrow> uint32" where
  "negativeTTL_loop ext [] n result = result"
| "negativeTTL_loop ext (parsed # rest) n result =
     negativeTTL_loop ext rest (n + 1) (negativeTTL_step ext n parsed result)"

definition answer_getNegativeTTL :: "externals \<Rightarrow> ns_msg \<Rightarrow> uint32" where
  "answer_getNegativeTTL ext handle = negativeTTL_loop ext (msg_ns handle) 0 0"

fun answerTTL_loop :: "ns_rr option list \<Rightarrow> nat \<Rightarrow> uint32 \<Rightarrow> uint32" where
  "answerTTL_loop [] n result = result"
| "answerTTL_loop (parsed # rest) n result =
     answerTTL_loop rest (n + 1)
       (case parsed of
          Some rr \<Rightarrow> (let ttl = rr_ttl rr in if n = 0 \<or> ttl < result then ttl else result)
        | None \<Rightarrow> result)"

definition answer_getTTL :: "externals \<Rightarrow> byte list \<Rightarrow> uint32" where
  "answer_getTTL ext answer =
     (case ns_initparse ext answer of
        Some handle \<Rightarrow>
          let ancount = length (msg_an handle) in
          if ancount = 0 then answer_getNegativeTTL ext handle
          else answerTTL_loop (msg_an handle) 0 0
      | None \<Rightarrow> 0)"

subsection \<open>A concrete parser for evaluations\<close>

text \<open>The standard behaviour of \<open>dn_skipname\<close>: labels are skipped up to the root label
  or a two-byte compression pointer; -1 when the name runs past the end.\<close>

function skipname_loop :: "byte list \<Rightarrow> nat \<Rightarrow> int" where
  "skipname_loop bs p =
     (if p \<ge> length bs then - 1
      else let n = unat (bs ! p) in
        if n = 0 then int (p + 1)
        else if n \<ge> 192 then (if p + 2 > length bs then - 1 else int (p + 2))
        else if n \<ge> 64 then - 1
        else skipname_loop bs (p + 1 + n))"
  by pat_completeness auto
termination
  by (relation "measure (\<lambda>(bs, p). length bs - p)") auto

declare skipname_loop.simps [simp del]

definition std_dn_skipname :: "byte list \<Rightarrow> int" where
  "std_dn_skipname bs = skipname_loop bs 0"

text \<open>A response to the query for \<open>a.\<close> with no answer record and two authority records:
  an NS record (TTL 300) followed by an SOA record (TTL 300, MINIMUM 60).\<close>

definition nodata_answer :: "byte list" where
  "nodata_answer =
     [0x12, 0x34, 0x81, 0x80, 0, 1, 0, 0, 0, 2, 0, 0,
      1, 97, 0, 0, 1, 0, 1,
      0xC0, 0x0C, 0, 2, 0, 1, 0, 0, 1, 44, 0, 2, 0xC0, 0x0C,
      0xC0, 0x0C, 0, 6, 0, 1, 0, 0, 1, 44, 0, 22,
        0, 0, 0, 0, 0, 1, 0, 0, 0, 2, 0, 0, 0, 3, 0, 0, 0, 4, 0, 0, 0, 60]"

definition nodata_handle :: ns_msg where
  "nodata_handle =
     \<lparr>msg_an = [],
      msg_ns = [Some \<lparr>rr_type = 2, rr_ttl = 300, rr_rdata = [0xC0, 0x0C]\<rparr>,
                Some \<lparr>rr_type = 6, rr_ttl = 300,
                      rr_rdata = [0, 0, 0, 0, 0, 1, 0, 0, 0, 2, 0, 0, 0, 3, 0, 0, 0, 4, 0, 0, 0, 60]\<rparr>]\<rparr>"

definition nodata_libc :: externals where
  "nodata_libc =
     \<lparr>ns_initparse = (\<lambda>answer. if answer = nodata_answer then Some nodata_handle else None),
      dn_skipname = std_dn_skipname,
      getaddrinfo_numeric = (\<lambda>server. Some server),
      flag_retry_count = None,
      flag_retransmission_time_interval = None\<rparr>"

section \<open>Answer cache (res_cache.cpp)\<close>

text \<open>An \<open>Entry\<close> owns copies of the query and the answer. The links \<open>hlink\<close>,
  \<open>mru_prev\<close> and \<open>mru_next\<close> of the source are the positions of the entry in the
  collision chain and in the MRU list that hold it.\<close>

record Entry =
  hash :: uint32
  query :: "byte list"
  answer :: "byte list"
  expires :: int
  entry_id :: int

text \<open>\<open>entries\<close> is the bucket array, each bucket its collision chain in \<open>hlink\<close>
  order; \<open>mru_list\<close> is the list behind the sentinel, most recently used first;
  \<open>pending_requests\<close> holds the hashes of the pending-request records in list order.\<close>

record Cache =
  max_entries :: nat
  num_entries :: int
  mru_list :: "Entry list"
  last_id :: int
  entries :: "Entry list list"
  pending_requests :: "uint32 list"

definition CONFIG_MAX_ENTRIES :: nat where
  "CONFIG_MAX_ENTRIES = 64 * 2 * 5"


definition entry_mru_remove :: "Entry \<Rightarrow> Entry list \<Rightarrow> Entry list" where
  "entry_mru_remove e list = remove1 e list"

definition entry_mru_add :: "Entry \<Rightarrow> Entry list \<Rightarrow> Entry list" where
  "entry_mru_add e list = e # list"

definition entry_hash :: "byte list \<Rightarrow> uint32 option" where
  "entry_hash q = dnsPacket_hashQuery (dnsPacket_init q)"

text \<open>\<open>entry_init_key\<close> zeroes the key, sets query and hash, and returns the result of
  \<open>_dnsPacket_checkQuery\<close> with it.\<close>

definition entry_init_key :: "byte list \<Rightarrow> (bool \<times> Entry) option" where
  "entry_init_key q =
     do {
       h \<leftarrow> entry_hash q;
       let e = \<lparr>hash = h, query = q, answer = [], expires = 0, entry_id = 0\<rparr>;
       Some (dnsPacket_checkQuery (dnsPacket_init (query e)), e)
     }"

text \<open>\<open>entry_alloc\<close> returns NULL when \<open>calloc\<close> fails; whether it succeeds is the
  parameter \<open>calloc_ok\<close> here and in the other allocating functions.\<close>

definition entry_alloc :: "bool \<Rightarrow> Entry \<Rightarrow> byte list \<Rightarrow> Entry option" where
  "entry_alloc calloc_ok init ans =
     (if \<not> calloc_ok then None
      else Some \<lparr>hash = hash init, query = query init, answer = ans, expires = 0, entry_id = 0\<rparr>)"

definition entry_equals :: "Entry \<Rightarrow> Entry \<Rightarrow> bool option" where
  "entry_equals e1 e2 =
     (if length (query e1) \<noteq> length (query e2) then Some False
      else dnsPacket_isEqualQuery (dnsPacket_init (query e1)) (dnsPacket_init (query e2)))"

subsection \<open>Pending requests\<close>

text \<open>The functions that call \<open>cv.notify_all()\<close> return the number of calls made next to
  the cache.\<close>

definition cache_flush_pending_requests_locked :: "Cache \<Rightarrow> Cache \<times> nat" where
  "cache_flush_pending_requests_locked cache = (cache\<lparr>pending_requests := []\<rparr>, 1)"

fun pending_member :: "uint32 list \<Rightarrow> uint32 \<Rightarrow> bool" where
  "pending_member [] h = False"
| "pending_member (ri # rest) h = (if ri = h then True else pending_member rest h)"

definition cache_has_pending_request_locked ::
  "bool \<Rightarrow> Cache option \<Rightarrow> Entry \<Rightarrow> bool \<Rightarrow> bool \<times> Cache option" where
  "cache_has_pending_request_locked calloc_ok cache key append_if_not_found =
     (case cache of
        None \<Rightarrow> (False, None)
      | Some c \<Rightarrow>
          if pending_member (pending_requests c) (hash key) then (True, Some c)
          else if append_if_not_found \<and> calloc_ok
               then (False, Some (c\<lparr>pending_requests := pending_requests c @ [hash key]\<rparr>))
               else (False, Some c))"

text \<open>The loop of \<open>_cache_notify_waiting_tid_locked\<close> unlinks the first record with the
  key's hash and notifies; without such a record nothing happens.\<close>

fun pending_unlink :: "uint32 list \<Rightarrow> uint32 \<Rightarrow> uint32 list \<times> nat" where
  "pending_unlink [] h = ([], 0)"
| "pending_unlink (ri # rest) h =
     (if ri = h then (rest, 1)
      else let (rest, n) = pending_unlink rest h in (ri # rest, n))"

definition cache_notify_waiting_tid_locked :: "Cache \<Rightarrow> Entry \<Rightarrow> Cache \<times> nat" where
  "cache_notify_waiting_tid_locked cache key =
     (let (pending, n) = pending_unlink (pending_requests cache) (hash key)
      in (cache\<lparr>pending_requests := pending\<rparr>, n))"

definition cache_flush_locked :: "Cache \<Rightarrow> Cache \<times> nat" where
  "cache_flush_locked cache =
     (let cache = cache\<lparr>entries := map (\<lambda>chain. []) (entries cache)\<rparr>;
          (cache, n) = cache_flush_pending_requests_locked cache
      in (cache\<lparr>mru_list := [], num_entries := 0, last_id := 0\<rparr>, n))"

definition resolv_cache_create :: "bool \<Rightarrow> Cache option" where
  "resolv_cache_create calloc_ok =
     (if \<not> calloc_ok then None
      else Some \<lparr>max_entries = CONFIG_MAX_ENTRIES, num_entries = 0, mru_list = [], last_id = 0,
                 entries = replicate CONFIG_MAX_ENTRIES [], pending_requests = []\<rparr>)"

subsection \<open>Hash table\<close>

text \<open>An \<open>Entry**\<close> returned by \<open>_cache_lookup_p\<close> is a bucket index with a position in
  the bucket's chain; the position past the end of the chain is the pointer to the final
  NULL link. \<open>None\<close> is undefined behaviour of the comparison.\<close>

fun lookup_chain :: "Entry list \<Rightarrow> Entry \<Rightarrow> nat \<Rightarrow> nat option" where
  "lookup_chain [] key pos = Some pos"
| "lookup_chain (node # rest) key pos =
     (if hash node = hash key
      then do {
        eq \<leftarrow> entry_equals node key;
        if eq then Some pos else lookup_chain rest key (pos + 1)
      }
      else lookup_chain rest key (pos + 1))"

definition cache_lookup_p :: "Cache \<Rightarrow> Entry \<Rightarrow> (nat \<times> nat) option" where
  "cache_lookup_p cache key =
     (if max_entries cache = 0 then None
      else let index = unat (hash key) mod max_entries cache in
        do {
          pos \<leftarrow> lookup_chain (entries cache ! index) key 0;
          Some (index, pos)
        })"

text \<open>\<open>*lookup\<close>: the entry the pointer refers to, or NULL.\<close>

definition deref :: "Cache \<Rightarrow> nat \<times> nat \<Rightarrow> Entry option" where
  "deref cache lookup =
     (let chain = entries cache ! fst lookup in
      if snd lookup < length chain then Some (chain ! snd lookup) else None)"

definition cache_add_p :: "Cache \<Rightarrow> nat \<times> nat \<Rightarrow> Entry \<Rightarrow> Cache" where
  "cache_add_p cache lookup e =
     (let chain = entries cache ! fst lookup;
          last_id' = last_id cache + 1;
          e = e\<lparr>entry_id := last_id'\<rparr>
      in cache\<lparr>entries := (entries cache)[fst lookup := take (snd lookup) chain @ [e]],
               last_id := last_id',
               mru_list := entry_mru_add e (mru_list cache),
               num_entries := num_entries cache + 1\<rparr>)"

definition cache_remove_p :: "Cache \<Rightarrow> nat \<times> nat \<Rightarrow> Cache option" where
  "cache_remove_p cache lookup =
     (case deref cache lookup of
        None \<Rightarrow> None
      | Some e \<Rightarrow>
          let chain = entries cache ! fst lookup in
          Some (cache\<lparr>mru_list := entry_mru_remove e (mru_list cache),
                      entries := (entries cache)[fst lookup :=
                                   take (snd lookup) chain @ drop (snd lookup + 1) chain],
                      num_entries := num_entries cache - 1\<rparr>))"

text \<open>The sentinel \<open>cache->mru_list\<close> is a zeroed \<open>Entry\<close>; \<open>mru_list.mru_prev\<close> is the
  last entry of the list, or the sentinel itself when the list is empty.\<close>

definition mru_sentinel :: Entry where
  "mru_sentinel = \<lparr>hash = 0, query = [], answer = [], expires = 0, entry_id = 0\<rparr>"

definition cache_remove_oldest :: "Cache \<Rightarrow> Cache option" where
  "cache_remove_oldest cache =
     (let oldest = (if mru_list cache = [] then mru_sentinel else last (mru_list cache)) in
      do {
        lookup \<leftarrow> cache_lookup_p cache oldest;
        if deref cache lookup = None then Some cache
        else cache_remove_p cache lookup
      })"

text \<open>The loop of \<open>_cache_remove_expired\<close> walks the MRU list from its head; \<open>es\<close> are
  the entries still to visit. The successor is read before the entry found by the lookup
  is removed.\<close>

fun remove_expired_loop :: "int \<Rightarrow> Entry list \<Rightarrow> Cache \<Rightarrow> Cache option" where
  "remove_expired_loop now [] cache = Some cache"
| "remove_expired_loop now (e # es) cache =
     (if now \<ge> expires e
      then do {
        lookup \<leftarrow> cache_lookup_p cache e;
        if deref cache lookup = None then Some cache
        else do {
          cache \<leftarrow> cache_remove_p cache lookup;
          remove_expired_loop now es cache
        }
      }
      else remove_expired_loop now es cache)"

definition cache_remove_expired :: "int \<Rightarrow> Cache \<Rightarrow> Cache option" where
  "cache_remove_expired now cache = remove_expired_loop now (mru_list cache) cache"

subsection \<open>Registry of the per-network caches\<close>

text \<open>Modelled from the spec: \<open>res_sample\<close>, \<open>res_stats\<close> and \<open>MAXNS\<close> are declared in
  netd_resolv/stats.h and netd_resolv/params.h, which are not part of the sources at hand.
  Per server the spec gives a ring of samples (timestamp, rcode, rtt) with the fields
  \<open>sample_count\<close> and \<open>sample_next\<close>, and four servers by default; the ring is an
  array of \<open>MAXNSSAMPLES\<close> samples, 64 in the platform header.\<close>

record res_sample =
  sample_at :: int
  sample_rtt :: int
  sample_rcode :: int

record res_stats =
  samples :: "res_sample list"
  sample_count :: nat
  sample_next :: nat

definition MAXNS :: nat where
  "MAXNS = 4"

definition MAXNSSAMPLES :: nat where
  "MAXNSSAMPLES = 64"

text \<open>The fields of \<open>struct resolv_cache_info\<close>, without the link \<open>next\<close> (the registry is
  the list of the records) and without the subsampling map.\<close>

record resolv_cache_info =
  ci_netid :: nat
  ci_cache :: Cache
  ci_nscount :: int
  ci_nameservers :: "string list"
  ci_nsaddrinfo :: "addrinfo option list"
  ci_revision_id :: int
  ci_params :: res_params
  ci_nsstats :: "res_stats list"
  ci_search_domains :: "string list"
  ci_wait_for_pending_req_timeout_count :: int

text \<open>The process-wide state behind \<open>cache_mutex\<close>: the list \<open>res_cache_list\<close>, and the
  number of \<open>cv.notify_all()\<close> calls made so far on the one condition variable.\<close>

record resolver =
  res_cache_list :: "resolv_cache_info list"
  cv_notify_all :: nat

definition find_cache_info_locked :: "resolver \<Rightarrow> nat \<Rightarrow> resolv_cache_info option" where
  "find_cache_info_locked st n = find (\<lambda>ci. ci_netid ci = n) (res_cache_list st)"

definition find_named_cache_locked :: "resolver \<Rightarrow> nat \<Rightarrow> Cache option" where
  "find_named_cache_locked st n =
     (case find_cache_info_locked st n of Some info \<Rightarrow> Some (ci_cache info) | None \<Rightarrow> None)"

text \<open>A write through the pointer that \<open>find_cache_info_locked\<close> returned: the first record
  of the network is replaced.\<close>

fun store_info :: "resolv_cache_info list \<Rightarrow> nat \<Rightarrow> resolv_cache_info \<Rightarrow> resolv_cache_info list" where
  "store_info [] n info = []"
| "store_info (ci # rest) n info =
     (if ci_netid ci = n then info # rest else ci # store_info rest n info)"

fun store_cache :: "resolv_cache_info list \<Rightarrow> nat \<Rightarrow> Cache \<Rightarrow> resolv_cache_info list" where
  "store_cache [] n c = []"
| "store_cache (ci # rest) n c =
     (if ci_netid ci = n then ci\<lparr>ci_cache := c\<rparr> # rest else ci # store_cache rest n c)"

definition commit_cache :: "resolver \<Rightarrow> nat \<Rightarrow> Cache \<times> nat \<Rightarrow> resolver" where
  "commit_cache st n cn =
     st\<lparr>res_cache_list := store_cache (res_cache_list st) n (fst cn),
        cv_notify_all := cv_notify_all st + snd cn\<rparr>"

subsection \<open>Cache operations\<close>

datatype ResolvCacheStatus =
  RESOLV_CACHE_UNSUPPORTED | RESOLV_CACHE_NOTFOUND | RESOLV_CACHE_FOUND | RESOLV_CACHE_SKIP

text \<open>What \<open>resolv_cache_lookup\<close> hands back: the status, the bytes copied into the
  answer buffer (if any) and the value written to \<open>*answerlen\<close> (if any).\<close>

record lookup_out =
  lo_status :: ResolvCacheStatus
  lo_answer :: "byte list option"
  lo_answerlen :: "int option"

definition lookup_ret :: "ResolvCacheStatus \<Rightarrow> lookup_out" where
  "lookup_ret s = \<lparr>lo_status = s, lo_answer = None, lo_answerlen = None\<rparr>"

text \<open>A lookup that finds a pending request for its key waits on the condition variable
  and releases the mutex: other threads run before it goes on. The call is therefore two
  steps, the part up to the wait and the part after the wake-up.\<close>

datatype lookup_step = Done lookup_out | Wait Entry

text \<open>The end of \<open>resolv_cache_lookup\<close>, from \<open>now = _time_now()\<close> on, for the entry
  \<open>e = *lookup\<close>.\<close>

definition lookup_hit ::
  "int \<Rightarrow> resolver \<Rightarrow> nat \<Rightarrow> Cache \<Rightarrow> nat \<times> nat \<Rightarrow> Entry \<Rightarrow> int \<Rightarrow> (lookup_out \<times> resolver) option" where
  "lookup_hit now st n c lookup e answersize =
     (if now \<ge> expires e
      then do {
        c \<leftarrow> cache_remove_p c lookup;
        Some (lookup_ret RESOLV_CACHE_NOTFOUND, commit_cache st n (c, 0))
      }
      else if int (length (answer e)) > answersize
      then Some (\<lparr>lo_status = RESOLV_CACHE_UNSUPPORTED, lo_answer = None,
                   lo_answerlen = Some (int (length (answer e)))\<rparr>, st)
      else let c = (if (case mru_list c of [] \<Rightarrow> True | first # _ \<Rightarrow> e \<noteq> first)
                    then c\<lparr>mru_list := entry_mru_add e (entry_mru_remove e (mru_list c))\<rparr>
                    else c)
           in Some (\<lparr>lo_status = RESOLV_CACHE_FOUND, lo_answer = Some (answer e),
                      lo_answerlen = Some (int (length (answer e)))\<rparr>,
                    commit_cache st n (c, 0)))"

definition resolv_cache_lookup_begin ::
  "bool \<Rightarrow> int \<Rightarrow> resolver \<Rightarrow> nat \<Rightarrow> byte list \<Rightarrow> int \<Rightarrow> uint32 \<Rightarrow> (lookup_step \<times> resolver) option" where
  "resolv_cache_lookup_begin calloc_ok now st n q answersize flags =
     (if flags AND ANDROID_RESOLV_NO_CACHE_LOOKUP \<noteq> 0
      then Some (Done (lookup_ret (if flags AND ANDROID_RESOLV_NO_CACHE_STORE \<noteq> 0
                                   then RESOLV_CACHE_SKIP else RESOLV_CACHE_NOTFOUND)), st)
      else do {
        (ok, key) \<leftarrow> entry_init_key q;
        if \<not> ok then Some (Done (lookup_ret RESOLV_CACHE_UNSUPPORTED), st)
        else case find_named_cache_locked st n of
          None \<Rightarrow> Some (Done (lookup_ret RESOLV_CACHE_UNSUPPORTED), st)
        | Some c \<Rightarrow> do {
            lookup \<leftarrow> cache_lookup_p c key;
            case deref c lookup of
              None \<Rightarrow>
                if flags AND ANDROID_RESOLV_NO_CACHE_STORE \<noteq> 0
                then Some (Done (lookup_ret RESOLV_CACHE_SKIP), st)
                else (case cache_has_pending_request_locked calloc_ok (Some c) key True of
                        (False, c') \<Rightarrow>
                          Some (Done (lookup_ret RESOLV_CACHE_NOTFOUND),
                                commit_cache st n (case c' of Some c' \<Rightarrow> c' | None \<Rightarrow> c, 0))
                      | (True, _) \<Rightarrow> Some (Wait key, st))
            | Some e \<Rightarrow> do {
                (out, st) \<leftarrow> lookup_hit now st n c lookup e answersize;
                Some (Done out, st)
              }
          }
      })"

text \<open>After the wake-up: \<open>cv.wait_for\<close> returns the value of its predicate, which has
  just looked the cache up again; \<open>st\<close> is the state at that moment.\<close>

definition resolv_cache_lookup_wakeup ::
  "int \<Rightarrow> resolver \<Rightarrow> nat \<Rightarrow> Entry \<Rightarrow> int \<Rightarrow> (lookup_out \<times> resolver) option" where
  "resolv_cache_lookup_wakeup now st n key answersize =
     (let c = find_named_cache_locked st n;
          ret = (\<not> fst (cache_has_pending_request_locked True c key False))
      in case c of
           None \<Rightarrow> Some (lookup_ret RESOLV_CACHE_NOTFOUND, st)
         | Some c \<Rightarrow>
             let st = (if \<not> ret
                       then (case find_cache_info_locked st n of
                               Some info \<Rightarrow>
                                 st\<lparr>res_cache_list := store_info (res_cache_list st) n
                                       (info\<lparr>ci_wait_for_pending_req_timeout_count :=
                                               ci_wait_for_pending_req_timeout_count info + 1\<rparr>)\<rparr>
                             | None \<Rightarrow> st)
                       else st)
             in do {
               lookup \<leftarrow> cache_lookup_p c key;
               case deref c lookup of
                 None \<Rightarrow> Some (lookup_ret RESOLV_CACHE_NOTFOUND, st)
               | Some e \<Rightarrow> lookup_hit now st n c lookup e answersize
             })"


text \<open>\<open>resolv_cache_add\<close>; the clock reads of one call give the same second \<open>now\<close>.\<close>

definition resolv_cache_add ::
  "externals \<Rightarrow> bool \<Rightarrow> int \<Rightarrow> resolver \<Rightarrow> nat \<Rightarrow> byte list \<Rightarrow> byte list \<Rightarrow> (int \<times> resolver) option" where
  "resolv_cache_add ext calloc_ok now st n q ans =
     do {
       (ok, key) \<leftarrow> entry_init_key q;
       if \<not> ok then Some (- EINVAL, st)
       else case find_named_cache_locked st n of
         None \<Rightarrow> Some (- ENONET, st)
       | Some c \<Rightarrow> do {
           lookup \<leftarrow> cache_lookup_p c key;
           if deref c lookup \<noteq> None
           then Some (- EEXIST, commit_cache st n (cache_notify_waiting_tid_locked c key))
           else do {
             (c, lookup) \<leftarrow>
               (if num_entries c \<ge> int (max_entries c)
                then do {
                  c \<leftarrow> cache_remove_expired now c;
                  c \<leftarrow> (if num_entries c \<ge> int (max_entries c)
                        then cache_remove_oldest c else Some c);
                  lookup \<leftarrow> cache_lookup_p c key;
                  Some (c, lookup)
                }
                else Some (c, lookup));
             if deref c lookup \<noteq> None
             then Some (- EEXIST, commit_cache st n (cache_notify_waiting_tid_locked c key))
             else
               let ttl = answer_getTTL ext ans;
                   c = (if ttl > 0
                        then (case entry_alloc calloc_ok key ans of
                                Some e \<Rightarrow> cache_add_p c lookup (e\<lparr>expires := uint ttl + now\<rparr>)
                              | None \<Rightarrow> c)
                        else c)
               in Some (0, commit_cache st n (cache_notify_waiting_tid_locked c key))
           }
         }
     }"

definition resolv_cache_query_failed ::
  "resolver \<Rightarrow> nat \<Rightarrow> byte list \<Rightarrow> uint32 \<Rightarrow> resolver option" where
  "resolv_cache_query_failed st n q flags =
     (if flags AND (ANDROID_RESOLV_NO_CACHE_STORE OR ANDROID_RESOLV_NO_CACHE_LOOKUP) \<noteq> 0
      then Some st
      else do {
        (ok, key) \<leftarrow> entry_init_key q;
        if \<not> ok then Some st
        else case find_named_cache_locked st n of
          Some c \<Rightarrow> Some (commit_cache st n (cache_notify_waiting_tid_locked c key))
        | None \<Rightarrow> Some st
      })"

definition create_cache_info :: resolv_cache_info where
  "create_cache_info =
     \<lparr>ci_netid = 0,
      ci_cache = \<lparr>max_entries = 0, num_entries = 0, mru_list = [], last_id = 0, entries = [],
                  pending_requests = []\<rparr>,
      ci_nscount = 0, ci_nameservers = [], ci_nsaddrinfo = replicate MAXNS None,
      ci_revision_id = 0,
      ci_params = \<lparr>sample_validity = 0, success_threshold = 0, min_samples = 0, max_samples = 0,
                   base_timeout_msec = 0, retry_count = 0\<rparr>,
      ci_nsstats = replicate MAXNS
        \<lparr>samples = replicate MAXNSSAMPLES \<lparr>sample_at = 0, sample_rtt = 0, sample_rcode = 0\<rparr>,
         sample_count = 0, sample_next = 0\<rparr>,
      ci_search_domains = [], ci_wait_for_pending_req_timeout_count = 0\<rparr>"

definition resolv_create_cache_for_net :: "bool \<Rightarrow> resolver \<Rightarrow> nat \<Rightarrow> int \<times> resolver" where
  "resolv_create_cache_for_net calloc_ok st n =
     (if find_named_cache_locked st n \<noteq> None then (- EEXIST, st)
      else case resolv_cache_create calloc_ok of
        None \<Rightarrow> (- ENOMEM, st)
      | Some c \<Rightarrow>
          (0, st\<lparr>res_cache_list :=
                   res_cache_list st @ [create_cache_info\<lparr>ci_cache := c, ci_netid := n\<rparr>]\<rparr>))"

fun delete_cache_info :: "resolv_cache_info list \<Rightarrow> nat \<Rightarrow> resolv_cache_info list \<times> nat" where
  "delete_cache_info [] n = ([], 0)"
| "delete_cache_info (ci # rest) n =
     (if ci_netid ci = n then (rest, snd (cache_flush_locked (ci_cache ci)))
      else let (rest, k) = delete_cache_info rest n in (ci # rest, k))"

definition resolv_delete_cache_for_net :: "resolver \<Rightarrow> nat \<Rightarrow> resolver" where
  "resolv_delete_cache_for_net st n =
     (let (l, k) = delete_cache_info (res_cache_list st) n
      in st\<lparr>res_cache_list := l, cv_notify_all := cv_notify_all st + k\<rparr>)"

text \<open>Modelled from the spec: \<open>resolv_flush_cache_for_net\<close> is declared in resolv_cache.h,
  its body is not part of res_cache.cpp. The spec's \<open>flush(net)\<close> drops all entries and
  all pending records and notifies all, which is \<open>cache_flush_locked\<close> on the cache of the
  network; an unknown network id gives \<open>-ENONET\<close>.\<close>

definition resolv_flush_cache_for_net :: "resolver \<Rightarrow> nat \<Rightarrow> int \<times> resolver" where
  "resolv_flush_cache_for_net st n =
     (case find_named_cache_locked st n of
        None \<Rightarrow> (- ENONET, st)
      | Some c \<Rightarrow> (0, commit_cache st n (cache_flush_locked c)))"

subsection \<open>Concrete inputs for the evaluations\<close>

text \<open>The query \<open>A www.\<close> with RD set, and the same header and question \<open>A .\<close> with
  ARCOUNT = 1 but no additional record in the buffer.\<close>

definition example_query :: "byte list" where
  "example_query =
     [0x12, 0x34, 1, 0, 0, 1, 0, 0, 0, 0, 0, 0, 3, 119, 119, 119, 0, 0, 1, 0, 1]"

definition short_opt_query :: "byte list" where
  "short_opt_query = [0x12, 0x34, 1, 0, 0, 1, 0, 0, 0, 0, 0, 1, 0, 0, 1, 0, 1]"

text \<open>Two answers to \<open>example_query\<close> with one A record \<open>1.2.3.4\<close>, of TTL 60 and of
  TTL 0; the parser of \<open>example_libc\<close> reports that record for each of them, and fails on
  any other buffer.\<close>

definition example_answer :: "byte list" where
  "example_answer =
     [0x12, 0x34, 0x81, 0x80, 0, 1, 0, 1, 0, 0, 0, 0, 3, 119, 119, 119, 0, 0, 1, 0, 1,
      0xC0, 0x0C, 0, 1, 0, 1, 0, 0, 0, 60, 0, 4, 1, 2, 3, 4]"

definition zero_ttl_answer :: "byte list" where
  "zero_ttl_answer =
     [0x12, 0x34, 0x81, 0x80, 0, 1, 0, 1, 0, 0, 0, 0, 3, 119, 119, 119, 0, 0, 1, 0, 1,
      0xC0, 0x0C, 0, 1, 0, 1, 0, 0, 0, 0, 0, 4, 1, 2, 3, 4]"

definition example_libc :: externals where
  "example_libc =
     \<lparr>ns_initparse = (\<lambda>ans.
          if ans = example_answer
          then Some \<lparr>msg_an = [Some \<lparr>rr_type = 1, rr_ttl = 60, rr_rdata = [1, 2, 3, 4]\<rparr>],
                     msg_ns = []\<rparr>
          else if ans = zero_ttl_answer
          then Some \<lparr>msg_an = [Some \<lparr>rr_type = 1, rr_ttl = 0, rr_rdata = [1, 2, 3, 4]\<rparr>],
                     msg_ns = []\<rparr>
          else None),
      dn_skipname = std_dn_skipname,
      getaddrinfo_numeric = (\<lambda>server. Some server),
      flag_retry_count = None,
      flag_retransmission_time_interval = None\<rparr>"

definition empty_resolver :: resolver where
  "empty_resolver = \<lparr>res_cache_list = [], cv_notify_all = 0\<rparr>"

text \<open>The registry with the one network 30, its cache as \<open>resolv_cache_create\<close> leaves it.\<close>

definition net30_cache :: Cache where
  "net30_cache =
     \<lparr>max_entries = CONFIG_MAX_ENTRIES, num_entries = 0, mru_list = [], last_id = 0,
      entries = replicate CONFIG_MAX_ENTRIES [], pending_requests = []\<rparr>"

definition net30_resolver :: resolver where
  "net30_resolver =
     \<lparr>res_cache_list = [create_cache_info\<lparr>ci_cache := net30_cache, ci_netid := 30\<rparr>],
      cv_notify_all = 0\<rparr>"

text \<open>The keys of the two queries, and the registry after \<open>example_answer\<close> has been
  added for \<open>example_query\<close> at second 100: the entry sits in bucket
  \<open>2338853121 mod 640 = 1\<close>. In \<open>net30_waiting\<close> a pending request for the query is
  registered as well.\<close>

definition example_key :: Entry where
  "example_key =
     \<lparr>hash = 2338853121, query = example_query, answer = [], expires = 0, entry_id = 0\<rparr>"

definition short_opt_key :: Entry where
  "short_opt_key =
     \<lparr>hash = 4075569214, query = short_opt_query, answer = [], expires = 0, entry_id = 0\<rparr>"

definition example_entry :: Entry where
  "example_entry =
     \<lparr>hash = 2338853121, query = example_query, answer = example_answer, expires = 160,
      entry_id = 1\<rparr>"

definition net30_cache_filled :: Cache where
  "net30_cache_filled =
     \<lparr>max_entries = CONFIG_MAX_ENTRIES, num_entries = 1, mru_list = [example_entry], last_id = 1,
      entries = (replicate CONFIG_MAX_ENTRIES [])[1 := [example_entry]], pending_requests = []\<rparr>"

definition net30_filled :: resolver where
  "net30_filled =
     \<lparr>res_cache_list = [create_cache_info\<lparr>ci_cache := net30_cache_filled, ci_netid := 30\<rparr>],
      cv_notify_all = 0\<rparr>"


subsection \<open>Sequences of cache operations\<close>

text \<open>The entry points that touch a cache, as steps on the shared state. The two steps of
  a lookup are separate operations, so that a sequence covers the operations other threads
  run while a lookup waits.\<close>

datatype cache_op =
  LookupBegin bool int nat "byte list" int uint32
| LookupWakeup int nat Entry int
| Add externals bool int nat "byte list" "byte list"
| QueryFailed nat "byte list" uint32
| Flush nat
| CreateCache bool nat
| DeleteCache nat

fun apply_op :: "resolver \<Rightarrow> cache_op \<Rightarrow> resolver option" where
  "apply_op st (LookupBegin calloc_ok now n q answersize flags) =
     map_option snd (resolv_cache_lookup_begin calloc_ok now st n q answersize flags)"
| "apply_op st (LookupWakeup now n key answersize) =
     map_option snd (resolv_cache_lookup_wakeup now st n key answersize)"
| "apply_op st (Add ext calloc_ok now n q ans) =
     map_option snd (resolv_cache_add ext calloc_ok now st n q ans)"
| "apply_op st (QueryFailed n q flags) = resolv_cache_query_failed st n q flags"
| "apply_op st (Flush n) = Some (snd (resolv_flush_cache_for_net st n))"
| "apply_op st (CreateCache calloc_ok n) = Some (snd (resolv_create_cache_for_net calloc_ok st n))"
| "apply_op st (DeleteCache n) = Some (resolv_delete_cache_for_net st n)"

fun run_ops :: "resolver \<Rightarrow> cache_op list \<Rightarrow> resolver option" where
  "run_ops st [] = Some st"
| "run_ops st (operation # rest) =
     (case apply_op st operation of None \<Rightarrow> None | Some st \<Rightarrow> run_ops st rest)"

text \<open>Every pending list of the registry holds each hash at most once.\<close>

definition pending_distinct :: "resolver \<Rightarrow> bool" where
  "pending_distinct st =
     list_all (\<lambda>ci. distinct (pending_requests (ci_cache ci))) (res_cache_list st)"

text \<open>The registry after network 30 was created and \<open>example_query\<close> was looked up
  once: its pending request is registered.\<close>

definition net30_asked :: resolver where
  "net30_asked =
     \<lparr>res_cache_list =
        [create_cache_info\<lparr>ci_cache := net30_cache\<lparr>pending_requests := [2338853121]\<rparr>,
                           ci_netid := 30\<rparr>],
      cv_notify_all = 0\<rparr>"

section \<open>Private DNS validation tracker (PrivateDnsConfiguration.cpp)\<close>

text \<open>Modelled from the spec: \<open>DnsTlsServer\<close>, \<open>Validation\<close>, \<open>PrivateDnsMode\<close> and
  \<open>PrivateDnsTracker\<close> are declared in DnsTlsServer.h and PrivateDnsConfiguration.h, which
  are not part of the sources at hand. A server record is (address, SNI hostname, pinned CA
  certificate, connect timeout) with exact equality; the validation states are in process,
  success and fail; the modes are OFF, OPPORTUNISTIC and STRICT.

  The tracker is a \<open>std::map\<close> from servers to validation states. Which servers its
  comparator identifies is the parameter \<open>cmp\<close>: it maps a server to what the comparator
  looks at. An entry of the map is found under \<open>cmp server\<close> and holds the key object
  stored at insertion next to the state; \<open>tracker[server] = v\<close> keeps the key object of an
  entry that is there and inserts \<open>server\<close> otherwise.\<close>

record DnsTlsServer =
  srv_ss :: string
  srv_name :: string
  srv_certificate :: string
  srv_connectTimeout :: nat

datatype Validation = in_process | success | fail

datatype PrivateDnsMode = OFF | OPPORTUNISTIC | STRICT

type_synonym 'k PrivateDnsTracker = "'k \<rightharpoonup> DnsTlsServer \<times> Validation"

record 'k PrivateDnsConfiguration =
  mPrivateDnsModes :: "nat \<rightharpoonup> PrivateDnsMode"
  mPrivateDnsTransports :: "nat \<rightharpoonup> 'k PrivateDnsTracker"

definition NEEDS_REEVALUATION :: bool where "NEEDS_REEVALUATION = True"
definition DONT_REEVALUATE :: bool where "DONT_REEVALUATE = False"

definition tracker_assign ::
  "('s \<Rightarrow> 'k) \<Rightarrow> ('k \<rightharpoonup> 's \<times> Validation) \<Rightarrow> 's \<Rightarrow> Validation \<Rightarrow> ('k \<rightharpoonup> 's \<times> Validation)" where
  "tracker_assign cmp tracker server v =
     (case tracker (cmp server) of
        Some (first, _) \<Rightarrow> tracker(cmp server \<mapsto> (first, v))
      | None \<Rightarrow> tracker(cmp server \<mapsto> (server, v)))"

text \<open>\<open>recordPrivateDnsValidation\<close> returns the re-evaluation status; the second component
  is the \<open>success\<close> value sent to the event listeners (\<open>None\<close> when the function returns
  before the event), the third the configuration after the call.\<close>

definition recordPrivateDnsValidation ::
  "(DnsTlsServer \<Rightarrow> 'k) \<Rightarrow> 'k PrivateDnsConfiguration \<Rightarrow> DnsTlsServer \<Rightarrow> nat \<Rightarrow> bool
     \<Rightarrow> bool \<times> bool option \<times> 'k PrivateDnsConfiguration" where
  "recordPrivateDnsValidation cmp this server netId succeeded =
     (case mPrivateDnsTransports this netId of
        None \<Rightarrow> (DONT_REEVALUATE, None, this)
      | Some tracker \<Rightarrow>
          (case mPrivateDnsModes this netId of
             None \<Rightarrow> (DONT_REEVALUATE, None, this)
           | Some mode \<Rightarrow>
               let modeDoesReevaluation = (mode = STRICT);
                   reevaluationStatus =
                     (if succeeded \<or> \<not> modeDoesReevaluation then DONT_REEVALUATE
                      else NEEDS_REEVALUATION);
                   (succeeded, reevaluationStatus) =
                     (case tracker (cmp server) of
                        None \<Rightarrow> (False, DONT_REEVALUATE)
                      | Some (first, _) \<Rightarrow>
                          if \<not> (first = server) then (False, DONT_REEVALUATE)
                          else (succeeded, reevaluationStatus));
                   tracker =
                     (if succeeded then tracker_assign cmp tracker server success
                      else tracker_assign cmp tracker server
                             (if reevaluationStatus = NEEDS_REEVALUATION then in_process else fail))
               in (reevaluationStatus, Some succeeded,
                   this\<lparr>mPrivateDnsTransports := (mPrivateDnsTransports this)(netId \<mapsto> tracker)\<rparr>)))"

definition needsValidation :: "('s \<Rightarrow> 'k) \<Rightarrow> ('k \<rightharpoonup> 's \<times> Validation) \<Rightarrow> 's \<Rightarrow> bool" where
  "needsValidation cmp tracker server =
     (case tracker (cmp server) of None \<Rightarrow> True | Some (_, v) \<Rightarrow> v = fail)"

subsection \<open>Concrete inputs for the evaluations\<close>

text \<open>Two servers; network 30 is in opportunistic mode and its tracker holds the second
  server only, as after a reconfiguration that dropped the first one while its validation
  was running. The comparator keys are the addresses.\<close>

definition dot_server1 :: DnsTlsServer where
  "dot_server1 = \<lparr>srv_ss = ''1.1.1.1'', srv_name = [], srv_certificate = [],
                   srv_connectTimeout = 0\<rparr>"

definition dot_server2 :: DnsTlsServer where
  "dot_server2 = \<lparr>srv_ss = ''9.9.9.9'', srv_name = [], srv_certificate = [],
                   srv_connectTimeout = 0\<rparr>"

definition dot_tracker :: "string PrivateDnsTracker" where
  "dot_tracker = [''9.9.9.9'' \<mapsto> (dot_server2, in_process)]"

definition dot_config :: "string PrivateDnsConfiguration" where
  "dot_config = \<lparr>mPrivateDnsModes = [30 \<mapsto> OPPORTUNISTIC],
                  mPrivateDnsTransports = [30 \<mapsto> dot_tracker]\<rparr>"

text \<open>Network 31 is in strict mode; the tracker entry under the address of the first server
  holds that server with another hostname, as after a reconfiguration that changed the
  hostname while the validation of \<open>dot_server1\<close> was running.\<close>

definition dot_server1_renamed :: DnsTlsServer where
  "dot_server1_renamed = dot_server1\<lparr>srv_name := ''dns.example''\<rparr>"

definition dot_tracker_changed :: "string PrivateDnsTracker" where
  "dot_tracker_changed = [''1.1.1.1'' \<mapsto> (dot_server1_renamed, in_process)]"

definition dot_config_changed :: "string PrivateDnsConfiguration" where
  "dot_config_changed = \<lparr>mPrivateDnsModes = [31 \<mapsto> STRICT],
                          mPrivateDnsTransports = [31 \<mapsto> dot_tracker_changed]\<rparr>"

section \<open>Network registry: name servers and statistics (res_cache.cpp)\<close>

text \<open>Modelled from the spec: \<open>MAXDNSRCH\<close> and \<open>MAXDNSRCHPATH\<close> come from
  netd_resolv/params.h, which is not part of the sources at hand; the spec names them as
  the caps of the search-domain list. The values are those of the platform header.\<close>

definition MAXDNSRCH :: nat where "MAXDNSRCH = 6"
definition MAXDNSRCHPATH :: nat where "MAXDNSRCHPATH = 256 + 1"

definition RES_TIMEOUT :: int where "RES_TIMEOUT = 5000"
definition RES_DFLRETRY :: int where "RES_DFLRETRY = 2"

text \<open>\<open>ParseInt\<close> writes its result only when the flag's text parses.\<close>

definition resolv_set_experiment_params :: "externals \<Rightarrow> res_params \<Rightarrow> res_params" where
  "resolv_set_experiment_params ext p =
     (let p = (if retry_count p = 0
               then p\<lparr>retry_count := (case flag_retry_count ext of
                                          Some v \<Rightarrow> v | None \<Rightarrow> RES_DFLRETRY)\<rparr>
               else p)
      in if base_timeout_msec p = 0
         then p\<lparr>base_timeout_msec := (case flag_retransmission_time_interval ext of
                                          Some v \<Rightarrow> v | None \<Rightarrow> RES_TIMEOUT)\<rparr>
         else p)"

text \<open>\<open>std::copy_if\<close> with the set of the strings seen so far, then the cut at
  \<open>MAXDNSRCH\<close>.\<close>

fun copy_domains :: "string list \<Rightarrow> string set \<Rightarrow> string list" where
  "copy_domains [] tmp_set = []"
| "copy_domains (str # rest) tmp_set =
     (if \<not> (length str > MAXDNSRCHPATH - 1) \<and> str \<notin> tmp_set
      then str # copy_domains rest (insert str tmp_set)
      else copy_domains rest tmp_set)"

definition filter_domains :: "string list \<Rightarrow> string list" where
  "filter_domains domains =
     (let res = copy_domains domains {} in
      if length res > MAXDNSRCH then take MAXDNSRCH res else res)"

definition filter_nameservers :: "string list \<Rightarrow> string list" where
  "filter_nameservers servers =
     (let res = servers in if length res > MAXNS then take MAXNS res else res)"

definition resolv_is_nameservers_equal :: "string list \<Rightarrow> string list \<Rightarrow> bool" where
  "resolv_is_nameservers_equal oldServers newServers = (set oldServers = set newServers)"

text \<open>The loop of \<open>res_cache_clear_stats_locked\<close> runs \<open>MAXNS\<close> times over
  \<open>cache_info->nsstats->sample_count = cache_info->nsstats->sample_next = 0\<close>: each
  round writes the element at index 0.\<close>

fun clear_stats_loop :: "nat \<Rightarrow> res_stats list \<Rightarrow> res_stats list" where
  "clear_stats_loop 0 stats = stats"
| "clear_stats_loop (Suc k) stats =
     clear_stats_loop k (stats[0 := (stats ! 0)\<lparr>sample_count := 0, sample_next := 0\<rparr>])"

definition res_cache_clear_stats_locked :: "resolv_cache_info \<Rightarrow> resolv_cache_info" where
  "res_cache_clear_stats_locked cache_info =
     cache_info\<lparr>ci_nsstats := clear_stats_loop MAXNS (ci_nsstats cache_info)\<rparr>"

text \<open>The loop of \<open>free_nameservers_locked\<close> over \<open>i < nscount\<close>, from index \<open>i\<close>
  for \<open>k\<close> rounds.\<close>

fun free_nameservers_loop :: "nat \<Rightarrow> nat \<Rightarrow> resolv_cache_info \<Rightarrow> resolv_cache_info" where
  "free_nameservers_loop i 0 cache_info = cache_info"
| "free_nameservers_loop i (Suc k) cache_info =
     free_nameservers_loop (i + 1) k
       (cache_info\<lparr>ci_nameservers := [],
                   ci_nsaddrinfo := (ci_nsaddrinfo cache_info)[i := None],
                   ci_nsstats := (ci_nsstats cache_info)
                      [i := (ci_nsstats cache_info ! i)\<lparr>sample_count := 0, sample_next := 0\<rparr>]\<rparr>)"

definition free_nameservers_locked :: "resolv_cache_info \<Rightarrow> resolv_cache_info" where
  "free_nameservers_locked cache_info =
     (let cache_info = free_nameservers_loop 0 (nat (ci_nscount cache_info)) cache_info;
          cache_info = cache_info\<lparr>ci_nscount := 0\<rparr>;
          cache_info = res_cache_clear_stats_locked cache_info
      in cache_info\<lparr>ci_revision_id := int32 (ci_revision_id cache_info + 1)\<rparr>)"

text \<open>The first loop of \<open>resolv_set_nameservers\<close>: all servers are parsed before the state
  is touched; \<open>None\<close> is the return of \<open>-EINVAL\<close>.\<close>

fun parse_nameservers :: "externals \<Rightarrow> string list \<Rightarrow> addrinfo list option" where
  "parse_nameservers ext [] = Some []"
| "parse_nameservers ext (server # rest) =
     (case getaddrinfo_numeric ext server of
        None \<Rightarrow> None
      | Some ai \<Rightarrow> map_option ((#) ai) (parse_nameservers ext rest))"

text \<open>The loop \<open>cache_info->nsaddrinfo[i] = nsaddrinfo[i]\<close> over \<open>i < numservers\<close>.\<close>

fun store_nsaddrinfo :: "nat \<Rightarrow> addrinfo list \<Rightarrow> addrinfo option list \<Rightarrow> addrinfo option list" where
  "store_nsaddrinfo i [] slots = slots"
| "store_nsaddrinfo i (ai # rest) slots = store_nsaddrinfo (i + 1) rest (slots[i := Some ai])"

definition resolv_set_nameservers ::
  "externals \<Rightarrow> resolver \<Rightarrow> nat \<Rightarrow> string list \<Rightarrow> string list \<Rightarrow> res_params \<Rightarrow> int \<times> resolver" where
  "resolv_set_nameservers ext st n servers domains new_params =
     (let nameservers = filter_nameservers servers;
          numservers = int (length nameservers)
      in case parse_nameservers ext nameservers of
           None \<Rightarrow> (- EINVAL, st)
         | Some nsaddrinfo \<Rightarrow>
             (case find_cache_info_locked st n of
                None \<Rightarrow> (- ENONET, st)
              | Some cache_info \<Rightarrow>
                  let old_max_samples = max_samples (ci_params cache_info);
                      cache_info = cache_info\<lparr>ci_params := new_params\<rparr>;
                      cache_info = cache_info\<lparr>ci_params :=
                                     resolv_set_experiment_params ext (ci_params cache_info)\<rparr>;
                      cache_info =
                        (if \<not> resolv_is_nameservers_equal (ci_nameservers cache_info) nameservers
                         then let cache_info = free_nameservers_locked cache_info;
                                  cache_info = cache_info\<lparr>ci_nameservers := nameservers\<rparr>;
                                  cache_info = cache_info\<lparr>ci_nsaddrinfo :=
                                     store_nsaddrinfo 0 nsaddrinfo (ci_nsaddrinfo cache_info)\<rparr>;
                                  cache_info = cache_info\<lparr>ci_nscount := numservers\<rparr>;
                                  cache_info = res_cache_clear_stats_locked cache_info
                              in cache_info\<lparr>ci_revision_id := int32 (ci_revision_id cache_info + 1)\<rparr>
                         else if max_samples (ci_params cache_info) \<noteq> old_max_samples
                              then let cache_info = res_cache_clear_stats_locked cache_info
                                   in cache_info\<lparr>ci_revision_id :=
                                        int32 (ci_revision_id cache_info + 1)\<rparr>
                              else cache_info);
                      cache_info = cache_info\<lparr>ci_search_domains := filter_domains domains\<rparr>
                  in (0, st\<lparr>res_cache_list := store_info (res_cache_list st) n cache_info\<rparr>)))"

text \<open>\<open>_res_cache_add_stats_sample_locked\<close> and its caller.\<close>

definition res_cache_add_stats_sample_locked :: "res_stats \<Rightarrow> res_sample \<Rightarrow> int \<Rightarrow> res_stats" where
  "res_cache_add_stats_sample_locked stats sample max_samples_arg =
     (let stats = stats\<lparr>samples := (samples stats)[sample_next stats := sample]\<rparr>;
          stats = (if int (sample_count stats) < max_samples_arg
                   then stats\<lparr>sample_count := sample_count stats + 1\<rparr> else stats);
          next = sample_next stats + 1
      in if int next \<ge> max_samples_arg then stats\<lparr>sample_next := 0\<rparr>
         else stats\<lparr>sample_next := next\<rparr>)"

definition resolv_cache_add_resolver_stats_sample ::
  "resolver \<Rightarrow> nat \<Rightarrow> int \<Rightarrow> nat \<Rightarrow> res_sample \<Rightarrow> int \<Rightarrow> resolver" where
  "resolv_cache_add_resolver_stats_sample st n revision ns sample max_samples_arg =
     (if max_samples_arg \<le> 0 then st
      else case find_cache_info_locked st n of
             Some info \<Rightarrow>
               if ci_revision_id info = revision
               then st\<lparr>res_cache_list := store_info (res_cache_list st) n
                         (info\<lparr>ci_nsstats := (ci_nsstats info)
                             [ns := res_cache_add_stats_sample_locked (ci_nsstats info ! ns) sample
                                      max_samples_arg]\<rparr>)\<rparr>
               else st
           | None \<Rightarrow> st)"

subsection \<open>Concrete inputs for the evaluations\<close>

text \<open>Network 30 gets two name servers with \<open>max_samples = 8\<close>, one sample is recorded
  for the second server under the current revision, and the same two servers are set
  again, in the other order, with \<open>max_samples = 16\<close>.\<close>

definition params8 :: res_params where
  "params8 = \<lparr>sample_validity = 1800, success_threshold = 75, min_samples = 8,
               max_samples = 8, base_timeout_msec = 5000, retry_count = 2\<rparr>"

definition a_sample :: res_sample where
  "a_sample = \<lparr>sample_at = 100, sample_rtt = 20000, sample_rcode = 0\<rparr>"

definition two_servers :: resolver where
  "two_servers =
     snd (resolv_set_nameservers example_libc net30_resolver 30 [''8.8.8.8'', ''8.8.4.4''] []
            params8)"

definition two_servers_sampled :: resolver where
  "two_servers_sampled =
     resolv_cache_add_resolver_stats_sample two_servers 30 2 1 a_sample 8"

definition two_servers_again :: "int \<times> resolver" where
  "two_servers_again =
     resolv_set_nameservers example_libc two_servers_sampled 30 [''8.8.4.4'', ''8.8.8.8''] []
       (params8\<lparr>max_samples := 16\<rparr>)"

text \<open>The revision id and the \<open>(sample_count, sample_next)\<close> pairs of a network.\<close>

definition revision_of :: "resolver \<Rightarrow> nat \<Rightarrow> int option" where
  "revision_of st n = map_option ci_revision_id (find_cache_info_locked st n)"

definition sample_counters :: "resolver \<Rightarrow> nat \<Rightarrow> (nat \<times> nat) list" where
  "sample_counters st n =
     (case find_cache_info_locked st n of
        None \<Rightarrow> []
      | Some info \<Rightarrow> map (\<lambda>stats. (sample_count stats, sample_next stats)) (ci_nsstats info))"

section \<open>Send engine: the retry loop (res_send.cpp)\<close>



text \<open>What the network does during one call of \<open>send_dg\<close>, by the path the call takes:
  \<^item> \<open>DgNoSocket\<close>: \<open>socket()\<close> fails with a protocol-not-supported errno;
  \<^item> \<open>DgSocketFailed e\<close>: \<open>socket()\<close> fails with another errno \<open>e\<close>;
  \<^item> \<open>DgMarkFailed\<close>: \<open>setsockopt(SO_MARK)\<close> fails;
  \<^item> \<open>DgNotSent\<close>: \<open>random_bind\<close>, \<open>connect\<close> or \<open>send\<close> fails;
  \<^item> \<open>DgTimeout\<close>: the poll runs into the timeout;
  \<^item> \<open>DgPollFailed ignored\<close>: the poll or \<open>recvfrom\<close> fails; \<open>ignored\<close> tells whether
    a datagram was received and dropped (old id, foreign server, wrong question) before;
  \<^item> \<open>DgRejected\<close>: FORMERR to an EDNS0 query, SERVFAIL, NOTIMP or REFUSED;
  \<^item> \<open>DgTruncated\<close>: a matching reply with TC set;
  \<^item> \<open>DgReceived resplen\<close>: any other datagram of \<open>resplen\<close> bytes that is not dropped.\<close>

datatype dg_event =
  DgNoSocket | DgSocketFailed int | DgMarkFailed | DgNotSent | DgTimeout
| DgPollFailed bool | DgRejected | DgTruncated | DgReceived int


text \<open>The same for \<open>send_vc\<close>:
  \<^item> \<open>VcNoSocket\<close>, \<open>VcSocketFailed e\<close>: as above; \<open>VcMarkFailed e\<close>: \<open>setsockopt\<close> fails;
  \<^item> \<open>VcFailed e\<close>: bind, connect, write or read fails with errno \<open>e\<close> (after the one
    reconnect on \<open>ECONNRESET\<close>);
  \<^item> \<open>VcReceived resplen\<close>: a response with the length prefix \<open>resplen\<close> and the id of
    the query is read.\<close>

datatype vc_event = VcNoSocket | VcSocketFailed int | VcMarkFailed int | VcFailed int | VcReceived int


text \<open>What stays fixed during the loops of \<open>res_nsend\<close>: the retry count, the number of
  servers, the array \<open>usable_servers\<close>, the query length, whether \<open>statp->tc_mode\<close> is
  \<open>TC_MODE_UDP_TCP\<close>, and the events of the successive \<open>send_dg\<close> and \<open>send_vc\<close>
  calls, numbered in call order.\<close>

record send_env =
  retryTimes :: int
  se_nscount :: nat
  usable_servers :: "nat \<Rightarrow> bool"
  buflen :: int
  tc_mode_udp_tcp :: bool
  dg_events :: "nat \<Rightarrow> dg_event"
  vc_events :: "nat \<Rightarrow> vc_event"







text \<open>\<open>res_set_usable_server\<close> and the choice of the retry count.\<close>

fun set_usable_loop :: "int \<Rightarrow> nat \<Rightarrow> nat \<Rightarrow> int \<Rightarrow> (nat \<Rightarrow> bool) \<Rightarrow> (nat \<Rightarrow> bool)" where
  "set_usable_loop selectedServer ns 0 usableIndex usable = usable"
| "set_usable_loop selectedServer ns (Suc k) usableIndex usable =
     (let usableIndex = (if usable ns then usableIndex + 1 else usableIndex);
          usable = (if usableIndex \<noteq> selectedServer then usable(ns := False) else usable)
      in set_usable_loop selectedServer (ns + 1) k usableIndex usable)"

definition res_set_usable_server :: "int \<Rightarrow> nat \<Rightarrow> (nat \<Rightarrow> bool) \<Rightarrow> (nat \<Rightarrow> bool)" where
  "res_set_usable_server selectedServer nscount usable =
     set_usable_loop selectedServer 0 nscount 0 usable"

definition retry_times :: "uint32 \<Rightarrow> res_params \<Rightarrow> int" where
  "retry_times flags p = (if flags AND ANDROID_RESOLV_NO_RETRY \<noteq> 0 then 1 else retry_count p)"

subsection \<open>Concrete inputs for the evaluations\<close>

text \<open>A query of 600 bytes to one server that accepts no TCP connection: every connect
  runs into its timeout. No datagram is ever sent.\<close>

definition all_usable :: "nat \<Rightarrow> bool" where "all_usable ns = True"
definition dg_never :: "nat \<Rightarrow> dg_event" where "dg_never k = DgNotSent"
definition vc_connect_timeout :: "nat \<Rightarrow> vc_event" where "vc_connect_timeout k = VcFailed ETIMEDOUT"

definition tcp_unreachable :: send_env where
  "tcp_unreachable =
     \<lparr>retryTimes = 2, se_nscount = 1, usable_servers = all_usable, buflen = 600,
      tc_mode_udp_tcp = False, dg_events = dg_never, vc_events = vc_connect_timeout\<rparr>"






section \<open>Properties of the per-attempt timeout\<close>

lemma int32_id: "- 2147483648 \<le> x \<Longrightarrow> x < 2147483648 \<Longrightarrow> int32 x = x"
  unfolding int32_def by (rule signed_take_bit_int_eq_self) simp_all

lemma c_div_nonneg: "0 \<le> a \<Longrightarrow> 0 < b \<Longrightarrow> c_div a b = a div b"
  by (cases "a = 0") (simp_all add: c_div_def)

lemma c_mod_nonneg: "0 \<le> a \<Longrightarrow> 0 < b \<Longrightarrow> c_mod a b = a mod b"
  by (simp add: c_mod_def c_div_nonneg minus_mult_div_eq_mod)

text \<open>
  Claim C6. For server index \<open>ns\<close> and \<open>N\<close> servers the timeout computed by
  \<open>get_timeout\<close> is \<open>max(1000, (base_timeout_msec << ns) / (ns == 0 ? 1 : N))\<close>
  milliseconds, returned as seconds and nanoseconds, as long as the shifted value fits the
  32-bit \<open>int\<close> of the source; with 5000 ms and four servers the timeouts are 5000, 2500,
  5000 and 10000 ms.
\<close>

theorem get_timeout_formula:
  assumes "0 \<le> base_timeout_msec params"
    and "push_bit ns (base_timeout_msec params) < 2147483648"
    and "0 < N"
    and "ns < 32"
  shows "get_timeout_msec N params ns =
           Some (max 1000 (push_bit ns (base_timeout_msec params) div (if ns = 0 then 1 else N)))
       \<and> (\<exists>ts. get_timeout N params ns = Some ts
              \<and> tv_sec ts * 1000 + tv_nsec ts div 1000000 =
                  max 1000 (push_bit ns (base_timeout_msec params) div (if ns = 0 then 1 else N))
              \<and> tv_nsec ts mod 1000000 = 0)
       \<and> (base_timeout_msec params = 5000 \<and> N = 4 \<longrightarrow>
            map (get_timeout_msec N params) [0, 1, 2, 3] = [Some 5000, Some 2500, Some 5000, Some 10000])"
proof -
  let ?b = "base_timeout_msec params"
  let ?m = "max 1000 (push_bit ns ?b div (if ns = 0 then 1 else N))"
  have nonneg: "0 \<le> push_bit ns ?b"
    using assms(1) by (simp add: push_bit_eq_mult)
  have wrap: "int32 (push_bit ns ?b) = push_bit ns ?b"
    using nonneg assms(2) by (intro int32_id; linarith)
  have msec: "get_timeout_msec N params ns = Some ?m"
    using assms(3,4) nonneg
    by (auto simp: get_timeout_msec_def wrap Let_def c_div_nonneg INT_MIN_def max_def)
  have m_pos: "0 \<le> ?m" by simp
  have ts: "\<exists>ts. get_timeout N params ns = Some ts
              \<and> tv_sec ts * 1000 + tv_nsec ts div 1000000 = ?m \<and> tv_nsec ts mod 1000000 = 0"
    unfolding get_timeout_def msec using m_pos
    by (simp add: c_div_nonneg c_mod_nonneg del: max.bounded_iff)
  have vals: "?b = 5000 \<and> N = 4 \<longrightarrow>
      map (get_timeout_msec N params) [0, 1, 2, 3] = [Some 5000, Some 2500, Some 5000, Some 10000]"
    by (simp add: get_timeout_msec_def Let_def int32_id c_div_nonneg INT_MIN_def)
  from msec ts vals show ?thesis by blast
qed

theorem get_timeout_formula_witness:
  "get_timeout_msec 4 \<lparr>sample_validity = 1800, success_threshold = 75, min_samples = 8,
       max_samples = 8, base_timeout_msec = 5000, retry_count = 2\<rparr> 3 = Some 10000"
  using get_timeout_formula [of "\<lparr>sample_validity = 1800, success_threshold = 75, min_samples = 8,
       max_samples = 8, base_timeout_msec = 5000, retry_count = 2\<rparr>" 3 4]
  by simp


section \<open>Properties of the TTL extraction\<close>

lemma std_dn_skipname_root: "std_dn_skipname (0 # bs) = 1"
  by (simp add: std_dn_skipname_def skipname_loop.simps [of _ 0])

text \<open>
  Claim C2. With no answer record, \<open>answer_getTTL\<close> is to return the smallest
  \<open>min(soa.ttl, soa.minimum)\<close> over the SOA records of the authority section. On the
  response \<open>nodata_answer\<close>, whose only SOA record has TTL 300 and MINIMUM 60 and stands
  second in the authority section, the code returns 0: the minimum is initialised only at
  index 0 of the section, not at the first SOA record. The same SOA record alone in the
  authority section gives 60.
\<close>

theorem answer_getTTL_soa_not_first:
  "answer_getTTL nodata_libc nodata_answer = 0
   \<and> answer_getNegativeTTL nodata_libc (nodata_handle\<lparr>msg_ns := tl (msg_ns nodata_handle)\<rparr>) = 60"
  by (simp add: answer_getTTL_def nodata_libc_def nodata_handle_def answer_getNegativeTTL_def
      negativeTTL_step_def ns_t_soa_def NS_INT32SZ_def std_dn_skipname_root ntohl_at_def)


section \<open>Properties of the answer cache\<close>

subsection \<open>Keys, registry and pending list\<close>



lemma entry_init_key_query: "entry_init_key q = Some (ok, key) \<Longrightarrow> query key = q"
  by (auto simp: entry_init_key_def split: Option.bind_splits)

lemma pending_member_set: "pending_member l h = (h \<in> set l)"
  by (induction l) auto

lemma pending_unlink_remove1: "pending_unlink l h = (remove1 h l, if h \<in> set l then 1 else 0)"
  by (induction l) auto



lemma notify_waiting_eq:
  "cache_notify_waiting_tid_locked c key =
     (c\<lparr>pending_requests := remove1 (hash key) (pending_requests c)\<rparr>,
      if hash key \<in> set (pending_requests c) then 1 else 0)"
  by (simp add: cache_notify_waiting_tid_locked_def pending_unlink_remove1)

lemma find_store_cache_other:
  "m \<noteq> n \<Longrightarrow> find (\<lambda>ci. ci_netid ci = m) (store_cache l n c) = find (\<lambda>ci. ci_netid ci = m) l"
  by (induction l) auto

lemma find_named_commit_other:
  "m \<noteq> n \<Longrightarrow> find_named_cache_locked (commit_cache st n cn) m = find_named_cache_locked st m"
  by (simp add: find_named_cache_locked_def find_cache_info_locked_def commit_cache_def
      find_store_cache_other)

subsection \<open>Collision chains\<close>






subsection \<open>Removal keeps the bucket array and the pending list\<close>

lemma cache_remove_p_shape:
  "cache_remove_p c l = Some c' \<Longrightarrow>
     max_entries c' = max_entries c \<and> length (entries c') = length (entries c)
     \<and> pending_requests c' = pending_requests c"
  by (auto simp: cache_remove_p_def Let_def split: option.splits)

lemma cache_remove_oldest_shape:
  "cache_remove_oldest c = Some c' \<Longrightarrow>
     max_entries c' = max_entries c \<and> length (entries c') = length (entries c)
     \<and> pending_requests c' = pending_requests c"
  by (auto simp: cache_remove_oldest_def Let_def dest: cache_remove_p_shape
      split: if_splits Option.bind_splits)

lemma remove_expired_loop_shape:
  "remove_expired_loop now es c = Some c' \<Longrightarrow>
     max_entries c' = max_entries c \<and> length (entries c') = length (entries c)
     \<and> pending_requests c' = pending_requests c"
proof (induction es arbitrary: c)
  case Nil
  then show ?case by simp
next
  case (Cons e es)
  show ?case
  proof (cases "now \<ge> expires e")
    case False
    then show ?thesis using Cons by simp
  next
    case True
    then obtain l where l: "cache_lookup_p c e = Some l"
      using Cons.prems by (auto split: Option.bind_splits)
    show ?thesis
    proof (cases "deref c l = None")
      case True
      then show ?thesis using Cons.prems \<open>now \<ge> expires e\<close> l by simp
    next
      case False
      then obtain c1 where c1: "cache_remove_p c l = Some c1"
          and rest: "remove_expired_loop now es c1 = Some c'"
        using Cons.prems \<open>now \<ge> expires e\<close> l by (auto split: Option.bind_splits)
      from Cons.IH [OF rest] cache_remove_p_shape [OF c1] show ?thesis by simp
    qed
  qed
qed

lemma cache_remove_expired_shape:
  "cache_remove_expired now c = Some c' \<Longrightarrow>
     max_entries c' = max_entries c \<and> length (entries c') = length (entries c)
     \<and> pending_requests c' = pending_requests c"
  unfolding cache_remove_expired_def by (rule remove_expired_loop_shape)

subsection \<open>Adding an answer\<close>





lemma entry_init_key_fields:
  "entry_init_key q = Some (ok, key) \<Longrightarrow> query key = q \<and> ok = dnsPacket_checkQuery (dnsPacket_init q)"
  by (auto simp: entry_init_key_def split: Option.bind_splits)




subsection \<open>Evaluations on the concrete inputs\<close>


lemma example_query_key: "entry_init_key example_query = Some (True, example_key)"
  unfolding example_key_def by code_simp

lemma short_opt_query_key: "entry_init_key short_opt_query = Some (True, short_opt_key)"
  unfolding short_opt_key_def by code_simp



lemma short_opt_key_self: "entry_equals short_opt_key short_opt_key = Some False"
  by code_simp



lemma net30_find: "find_named_cache_locked net30_resolver 30 = Some net30_cache"
  by (simp add: find_named_cache_locked_def find_cache_info_locked_def net30_resolver_def)

lemma bucket: "unat (2338853121 :: uint32) mod 640 = Suc 0"
  by simp

lemma net30_lookup_p: "cache_lookup_p net30_cache example_key = Some (Suc 0, 0)"
  by (simp add: cache_lookup_p_def net30_cache_def example_key_def CONFIG_MAX_ENTRIES_def)

lemma net30_cache_fields:
  "num_entries net30_cache = 0" "max_entries net30_cache = 640" "last_id net30_cache = 0"
  "mru_list net30_cache = []" "pending_requests net30_cache = []"
  "entries net30_cache = replicate 640 []"
  by (simp_all add: net30_cache_def CONFIG_MAX_ENTRIES_def)

lemma net30_deref: "deref net30_cache (Suc 0, 0) = None"
  by (simp add: deref_def net30_cache_fields)








lemma net30_filled_find: "find_named_cache_locked net30_filled 30 = Some net30_cache_filled"
  by (simp add: find_named_cache_locked_def find_cache_info_locked_def net30_filled_def)




subsection \<open>The claims on lookup and add\<close>









subsection \<open>The pending-request list\<close>

lemma distinct_count_le_1: "distinct xs \<Longrightarrow> count_list xs x \<le> 1"
  by (induction xs) (auto simp: count_list_0_iff)

lemma store_cache_all:
  "list_all P l \<Longrightarrow> (\<And>ci. P ci \<Longrightarrow> P (ci\<lparr>ci_cache := c\<rparr>)) \<Longrightarrow> list_all P (store_cache l n c)"
  by (induction l) auto

lemma store_info_all:
  "list_all P l \<Longrightarrow> P info \<Longrightarrow> list_all P (store_info l n info)"
  by (induction l) auto

lemma pending_distinct_commit:
  "pending_distinct st \<Longrightarrow> distinct (pending_requests c) \<Longrightarrow>
   pending_distinct (commit_cache st n (c, k))"
  by (simp add: pending_distinct_def commit_cache_def store_cache_all)

lemma find_Some_all: "find Q l = Some x \<Longrightarrow> list_all P l \<Longrightarrow> P x"
  by (induction l) (auto split: if_splits)

lemma pending_distinct_info:
  "pending_distinct st \<Longrightarrow> find_cache_info_locked st n = Some info \<Longrightarrow>
   distinct (pending_requests (ci_cache info))"
  unfolding pending_distinct_def find_cache_info_locked_def
  by (drule (1) find_Some_all) simp

lemma pending_distinct_cache:
  "pending_distinct st \<Longrightarrow> find_named_cache_locked st n = Some c \<Longrightarrow>
   distinct (pending_requests c)"
  by (auto simp: find_named_cache_locked_def split: option.splits dest: pending_distinct_info)

lemma lookup_hit_distinct:
  assumes "pending_distinct st" "distinct (pending_requests c)"
    and "lookup_hit now st n c l e answersize = Some (out, st')"
  shows "pending_distinct st'"
proof (cases "now \<ge> expires e")
  case True
  then obtain c' where c': "cache_remove_p c l = Some c'" and st': "st' = commit_cache st n (c', 0)"
    using assms(3) by (auto simp: lookup_hit_def split: Option.bind_splits)
  then show ?thesis
    using assms(1,2) cache_remove_p_shape [OF c'] by (simp add: pending_distinct_commit)
next
  case False
  then show ?thesis
    using assms by (auto simp: lookup_hit_def Let_def pending_distinct_commit split: if_splits)
qed

lemma lookup_begin_distinct:
  assumes inv: "pending_distinct st"
    and step: "resolv_cache_lookup_begin calloc_ok now st n q answersize flags = Some (r, st')"
  shows "pending_distinct st'"
proof (cases "flags AND ANDROID_RESOLV_NO_CACHE_LOOKUP \<noteq> 0")
  case True
  then show ?thesis using step inv by (simp add: resolv_cache_lookup_begin_def)
next
  case nolookup: False
  then obtain ok key where key: "entry_init_key q = Some (ok, key)"
    using step by (auto simp: resolv_cache_lookup_begin_def split: Option.bind_splits)
  show ?thesis
  proof (cases "ok \<and> find_named_cache_locked st n \<noteq> None")
    case False
    then show ?thesis
      using step inv nolookup key
      by (auto simp: resolv_cache_lookup_begin_def split: option.splits)
  next
    case True
    then obtain c where c: "find_named_cache_locked st n = Some c" and ok: ok by auto
    have dc: "distinct (pending_requests c)" using pending_distinct_cache [OF inv c] .
    obtain l where l: "cache_lookup_p c key = Some l"
      using step nolookup key c ok
      by (auto simp: resolv_cache_lookup_begin_def split: Option.bind_splits)
    show ?thesis
    proof (cases "deref c l")
      case (Some e)
      then obtain out where "lookup_hit now st n c l e answersize = Some (out, st')"
        using step nolookup key c ok l
        by (auto simp: resolv_cache_lookup_begin_def split: Option.bind_splits)
      then show ?thesis using lookup_hit_distinct [OF inv dc] by blast
    next
      case None
      show ?thesis
      proof (cases "flags AND ANDROID_RESOLV_NO_CACHE_STORE \<noteq> 0")
        case True
        then show ?thesis
          using step nolookup key c ok l None inv by (simp add: resolv_cache_lookup_begin_def)
      next
        case False
        show ?thesis
        proof (cases "hash key \<in> set (pending_requests c)")
          case True
          then show ?thesis
            using step nolookup key c ok l None inv False
            by (simp add: resolv_cache_lookup_begin_def cache_has_pending_request_locked_def
                pending_member_set)
        next
          case notin: False
          then have "st' = commit_cache st n
              (if calloc_ok then c\<lparr>pending_requests := pending_requests c @ [hash key]\<rparr> else c, 0)"
            using step nolookup key c ok l None False
            by (auto simp: resolv_cache_lookup_begin_def cache_has_pending_request_locked_def
                pending_member_set)
          then show ?thesis using inv dc notin by (simp add: pending_distinct_commit)
        qed
      qed
    qed
  qed
qed


lemma lookup_wakeup_distinct:
  assumes inv: "pending_distinct st"
    and step: "resolv_cache_lookup_wakeup now st n key answersize = Some (out, st')"
  shows "pending_distinct st'"
proof (cases "find_named_cache_locked st n")
  case None
  then show ?thesis using step inv by (simp add: resolv_cache_lookup_wakeup_def)
next
  case (Some c)
  then obtain info where info: "find_cache_info_locked st n = Some info"
    by (auto simp: find_named_cache_locked_def split: option.splits)
  have dc: "distinct (pending_requests c)" using pending_distinct_cache [OF inv Some] .
  define st1 where "st1 =
     (if fst (cache_has_pending_request_locked True (Some c) key False)
      then st\<lparr>res_cache_list := store_info (res_cache_list st) n
              (info\<lparr>ci_wait_for_pending_req_timeout_count :=
                      ci_wait_for_pending_req_timeout_count info + 1\<rparr>)\<rparr>
      else st)"
  have inv1: "pending_distinct st1"
    using inv pending_distinct_info [OF inv info]
    by (simp add: st1_def pending_distinct_def store_info_all)
  obtain l where l: "cache_lookup_p c key = Some l"
    using step Some info by (auto simp: resolv_cache_lookup_wakeup_def Let_def split: Option.bind_splits)
  have step1: "(case deref c l of
                 None \<Rightarrow> Some (lookup_ret RESOLV_CACHE_NOTFOUND, st1)
               | Some e \<Rightarrow> lookup_hit now st1 n c l e answersize) = Some (out, st')"
    using step Some info l unfolding st1_def
    by (simp add: resolv_cache_lookup_wakeup_def Let_def cong: if_cong)
  show ?thesis
  proof (cases "deref c l")
    case None
    then show ?thesis using step1 inv1 by simp
  next
    case (Some e)
    then show ?thesis using step1 lookup_hit_distinct [OF inv1 dc] by simp
  qed
qed

lemma distinct_notify:
  "distinct (pending_requests c) \<Longrightarrow>
   distinct (pending_requests (fst (cache_notify_waiting_tid_locked c key)))"
  by (simp add: notify_waiting_eq)

lemma pending_distinct_notify:
  "pending_distinct st \<Longrightarrow> distinct (pending_requests c) \<Longrightarrow>
   pending_distinct (commit_cache st n (cache_notify_waiting_tid_locked c key))"
  by (simp add: notify_waiting_eq pending_distinct_commit)

lemma cache_add_p_pending: "pending_requests (cache_add_p c l e) = pending_requests c"
  by (simp add: cache_add_p_def Let_def)

lemma add_distinct:
  assumes inv: "pending_distinct st"
    and step: "resolv_cache_add ext calloc_ok now st n q a = Some (r, st')"
  shows "pending_distinct st'"
proof -
  obtain ok key where key: "entry_init_key q = Some (ok, key)"
    using step by (auto simp: resolv_cache_add_def split: Option.bind_splits)
  show ?thesis
  proof (cases "ok \<and> find_named_cache_locked st n \<noteq> None")
    case False
    then show ?thesis
      using step inv key by (auto simp: resolv_cache_add_def split: option.splits if_splits)
  next
    case True
    then obtain c where c: "find_named_cache_locked st n = Some c" and ok: ok by auto
    have dc: "distinct (pending_requests c)" using pending_distinct_cache [OF inv c] .
    have key': "entry_init_key q = Some (True, key)" using key ok by simp
    obtain l where l: "cache_lookup_p c key = Some l"
      using step key' c by (auto simp: resolv_cache_add_def split: Option.bind_splits)
    show ?thesis
    proof (cases "deref c l")
      case (Some e)
      then have "st' = commit_cache st n (cache_notify_waiting_tid_locked c key)"
        using step key' c l by (simp add: resolv_cache_add_def)
      then show ?thesis using inv dc by (simp add: pending_distinct_notify)
    next
      case None
      obtain c2 l2 where cl2: "(if num_entries c \<ge> int (max_entries c)
                then do {
                  c \<leftarrow> cache_remove_expired now c;
                  c \<leftarrow> (if num_entries c \<ge> int (max_entries c)
                        then cache_remove_oldest c else Some c);
                  lookup \<leftarrow> cache_lookup_p c key;
                  Some (c, lookup)
                }
                else Some (c, l)) = Some (c2, l2)"
        using step key' c l None by (auto simp: resolv_cache_add_def split: Option.bind_splits)
      have p2: "pending_requests c2 = pending_requests c"
      proof (cases "num_entries c \<ge> int (max_entries c)")
        case False
        then show ?thesis using cl2 by simp
      next
        case True
        then obtain c1 where c1: "cache_remove_expired now c = Some c1"
          and c12: "(if num_entries c1 \<ge> int (max_entries c1)
                        then cache_remove_oldest c1 else Some c1) = Some c2"
          using cl2 by (auto split: Option.bind_splits)
        have "pending_requests c2 = pending_requests c1"
          using c12 cache_remove_oldest_shape [of c1 c2] by (auto split: if_splits)
        then show ?thesis using cache_remove_expired_shape [OF c1] by simp
      qed
      define c3 where "c3 =
         (if answer_getTTL ext a > 0
          then (case entry_alloc calloc_ok key a of
                  Some e \<Rightarrow> cache_add_p c2 l2 (e\<lparr>expires := uint (answer_getTTL ext a) + now\<rparr>)
                | None \<Rightarrow> c2)
          else c2)"
      have p3: "pending_requests c3 = pending_requests c2"
        by (simp add: c3_def cache_add_p_pending split: option.splits)
      have "st' = commit_cache st n (cache_notify_waiting_tid_locked c3 key)
          \<or> st' = commit_cache st n (cache_notify_waiting_tid_locked c2 key)"
        using step key' c l None cl2 unfolding c3_def
        by (simp add: resolv_cache_add_def Let_def split: if_splits)
      then show ?thesis using inv dc p2 p3 by (auto simp: pending_distinct_notify)
    qed
  qed
qed

lemma query_failed_distinct:
  assumes inv: "pending_distinct st"
    and step: "resolv_cache_query_failed st n q flags = Some st'"
  shows "pending_distinct st'"
proof (cases "find_named_cache_locked st n")
  case None
  then show ?thesis
    using step inv
    by (auto simp: resolv_cache_query_failed_def split: if_splits Option.bind_splits)
next
  case (Some c)
  have "distinct (pending_requests c)" using pending_distinct_cache [OF inv Some] .
  then show ?thesis
    using step inv Some
    by (auto simp: resolv_cache_query_failed_def pending_distinct_notify
        split: if_splits Option.bind_splits)
qed

lemma flush_distinct:
  "pending_distinct st \<Longrightarrow> pending_distinct (snd (resolv_flush_cache_for_net st n))"
  by (auto simp: resolv_flush_cache_for_net_def cache_flush_locked_def
      cache_flush_pending_requests_locked_def pending_distinct_commit split: option.splits)

lemma create_distinct:
  "pending_distinct st \<Longrightarrow> pending_distinct (snd (resolv_create_cache_for_net calloc_ok st n))"
  by (auto simp: resolv_create_cache_for_net_def resolv_cache_create_def pending_distinct_def
      split: option.splits)

lemma delete_cache_info_all:
  "list_all P l \<Longrightarrow> list_all P (fst (delete_cache_info l n))"
  by (induction l) (auto split: prod.splits)

lemma delete_distinct:
  "pending_distinct st \<Longrightarrow> pending_distinct (resolv_delete_cache_for_net st n)"
  using delete_cache_info_all [of _ "res_cache_list st" n]
  by (auto simp: resolv_delete_cache_for_net_def pending_distinct_def split: prod.splits)

lemma apply_op_distinct:
  "pending_distinct st \<Longrightarrow> apply_op st operation = Some st' \<Longrightarrow> pending_distinct st'"
proof (cases operation)
  case (LookupBegin calloc_ok now n q answersize flags)
  then show "pending_distinct st \<Longrightarrow> apply_op st operation = Some st' \<Longrightarrow> pending_distinct st'"
    by (auto dest: lookup_begin_distinct)
next
  case (LookupWakeup now n key answersize)
  then show "pending_distinct st \<Longrightarrow> apply_op st operation = Some st' \<Longrightarrow> pending_distinct st'"
    by (auto dest: lookup_wakeup_distinct)
next
  case (Add ext calloc_ok now n q ans)
  then show "pending_distinct st \<Longrightarrow> apply_op st operation = Some st' \<Longrightarrow> pending_distinct st'"
    by (auto dest: add_distinct)
next
  case (QueryFailed n q flags)
  then show "pending_distinct st \<Longrightarrow> apply_op st operation = Some st' \<Longrightarrow> pending_distinct st'"
    by (auto dest: query_failed_distinct)
next
  case (Flush n)
  then show "pending_distinct st \<Longrightarrow> apply_op st operation = Some st' \<Longrightarrow> pending_distinct st'"
    by (auto simp: flush_distinct)
next
  case (CreateCache calloc_ok n)
  then show "pending_distinct st \<Longrightarrow> apply_op st operation = Some st' \<Longrightarrow> pending_distinct st'"
    by (auto simp: create_distinct)
next
  case (DeleteCache n)
  then show "pending_distinct st \<Longrightarrow> apply_op st operation = Some st' \<Longrightarrow> pending_distinct st'"
    by (auto simp: delete_distinct)
qed

lemma run_ops_distinct:
  "pending_distinct st \<Longrightarrow> run_ops st ops = Some st' \<Longrightarrow> pending_distinct st'"
proof (induction ops arbitrary: st)
  case Nil
  then show ?case by simp
next
  case (Cons operation rest)
  then show ?case
    by (auto split: option.splits dest: apply_op_distinct)
qed

text \<open>
  Claim C8. Starting from a registry whose pending lists hold each hash at most once (such
  as the empty registry), after any sequence of cache creations and deletions, lookups (up to
  the wait and after the wake-up), adds, query-failed notifications and flushes, the
  pending list of every network holds at most one record with a given hash.
\<close>

theorem pending_at_most_one:
  assumes "pending_distinct st"
    and "run_ops st ops = Some st'"
    and "find_named_cache_locked st' n = Some c"
  shows "count_list (pending_requests c) h \<le> 1"
  using run_ops_distinct [OF assms(1,2)] assms(3)
  by (intro distinct_count_le_1) (rule pending_distinct_cache)


lemma net30_create: "resolv_create_cache_for_net True empty_resolver 30 = (0, net30_resolver)"
  by (simp add: resolv_create_cache_for_net_def empty_resolver_def net30_resolver_def net30_cache_def
     find_named_cache_locked_def find_cache_info_locked_def resolv_cache_create_def)

lemma net30_lookup_begin:
  "resolv_cache_lookup_begin True 100 net30_resolver 30 example_query 512 0
     = Some (Done (lookup_ret RESOLV_CACHE_NOTFOUND), net30_asked)"
proof -
  have s: "commit_cache net30_resolver 30 (net30_cache\<lparr>pending_requests := [2338853121]\<rparr>, 0)
      = net30_asked"
    by (simp add: commit_cache_def net30_resolver_def net30_asked_def)
  have h: "hash example_key = 2338853121" by (simp add: example_key_def)
  show ?thesis
    by (simp add: resolv_cache_lookup_begin_def example_query_key net30_find
      net30_lookup_p net30_deref ANDROID_RESOLV_NO_CACHE_LOOKUP_def ANDROID_RESOLV_NO_CACHE_STORE_def
      cache_has_pending_request_locked_def net30_cache_fields h s)
qed

lemma run_example:
  "run_ops empty_resolver [CreateCache True 30, LookupBegin True 100 30 example_query 512 0]
     = Some net30_asked"
  by (simp add: net30_create net30_lookup_begin)

theorem pending_at_most_one_witness:
  "count_list (pending_requests (net30_cache\<lparr>pending_requests := [2338853121]\<rparr>)) 2338853121 \<le> 1"
proof -
  have inv: "pending_distinct empty_resolver"
    by (simp add: pending_distinct_def empty_resolver_def)
  have c: "find_named_cache_locked net30_asked 30
      = Some (net30_cache\<lparr>pending_requests := [2338853121]\<rparr>)"
    by (simp add: find_named_cache_locked_def find_cache_info_locked_def net30_asked_def)
  from pending_at_most_one [OF inv run_example c] show ?thesis .
qed


section \<open>Properties of the query fingerprint\<close>

text \<open>
  Claim C7. The fingerprint of a validated query is to be stable under changes of the
  transaction id and of the TC bit, and two such variants are to compare equal. The packet
  \<open>short_opt_query\<close> passes \<open>_dnsPacket_checkQuery\<close>, which accepts ARCOUNT = 1 without
  looking at the additional record; its variants with another id byte and with the TC bit
  set have the same hash, but \<open>_dnsPacket_isEqualQuery\<close> runs past the end of the
  buffers in the additional record and returns 0.
\<close>

theorem short_opt_query_variants_differ:
  "dnsPacket_checkQuery (dnsPacket_init short_opt_query)
   \<and> entry_hash (short_opt_query[0 := 0xAB]) = entry_hash (short_opt_query[2 := 3])
   \<and> dnsPacket_isEqualQuery (dnsPacket_init (short_opt_query[0 := 0xAB]))
         (dnsPacket_init (short_opt_query[2 := 3])) = Some False"
  by code_simp

theorem short_opt_query_variants_differ_witness:
  "dnsPacket_isEqualQuery (dnsPacket_init (short_opt_query[0 := 0xAB]))
     (dnsPacket_init (short_opt_query[2 := 3])) \<noteq> Some True"
  using short_opt_query_variants_differ by simp


section \<open>Properties of the private DNS tracker\<close>

text \<open>
  Claim C3. A validation outcome recorded for a server that is no longer in the tracker, or
  whose entry was replaced by a differing one, is to be treated as a failure and to leave
  the tracker unchanged. For the successful validation of \<open>dot_server1\<close>, which is not in
  the tracker of network 30, the code reports a failure to the listeners and asks for no
  re-evaluation, but then inserts the server with state \<open>fail\<close>. On network 31, where the
  entry under the server's address holds another hostname, it overwrites the state of that
  entry with \<open>fail\<close>.
\<close>

theorem record_validation_writes_tracker:
  "recordPrivateDnsValidation srv_ss dot_config dot_server1 30 True =
     (False, Some False,
      dot_config\<lparr>mPrivateDnsTransports :=
        [30 \<mapsto> dot_tracker(''1.1.1.1'' \<mapsto> (dot_server1, fail))]\<rparr>)
   \<and> (dot_tracker(''1.1.1.1'' \<mapsto> (dot_server1, fail))) ''1.1.1.1'' \<noteq> dot_tracker ''1.1.1.1''
   \<and> recordPrivateDnsValidation srv_ss dot_config_changed dot_server1 31 True =
     (False, Some False,
      dot_config_changed\<lparr>mPrivateDnsTransports :=
        [31 \<mapsto> dot_tracker_changed(''1.1.1.1'' \<mapsto> (dot_server1_renamed, fail))]\<rparr>)
   \<and> (dot_tracker_changed(''1.1.1.1'' \<mapsto> (dot_server1_renamed, fail))) ''1.1.1.1''
       \<noteq> dot_tracker_changed ''1.1.1.1''"
  by (simp add: recordPrivateDnsValidation_def dot_config_def dot_tracker_def dot_server1_def
      dot_config_changed_def dot_tracker_changed_def dot_server1_renamed_def
      tracker_assign_def DONT_REEVALUATE_def NEEDS_REEVALUATION_def)


section \<open>Properties of the name server registry\<close>

lemma two_servers_eval:
  "two_servers = \<lparr>res_cache_list =
     [create_cache_info\<lparr>ci_cache := net30_cache, ci_netid := 30, ci_params := params8,
        ci_nameservers := [''8.8.8.8'', ''8.8.4.4''],
        ci_nsaddrinfo := [Some ''8.8.8.8'', Some ''8.8.4.4'', None, None],
        ci_nscount := 2, ci_revision_id := 2\<rparr>], cv_notify_all = 0\<rparr>"
  by (simp add: two_servers_def resolv_set_nameservers_def filter_nameservers_def MAXNS_def
      example_libc_def find_cache_info_locked_def net30_resolver_def create_cache_info_def
      resolv_set_experiment_params_def params8_def resolv_is_nameservers_equal_def
      free_nameservers_locked_def res_cache_clear_stats_locked_def int32_def
      filter_domains_def Let_def numeral_nat)

lemma two_servers_sampled_counters:
  "revision_of two_servers_sampled 30 = Some 2
   \<and> sample_counters two_servers_sampled 30 = [(0, 0), (1, 1), (0, 0), (0, 0)]"
  by (simp add: two_servers_sampled_def two_servers_eval resolv_cache_add_resolver_stats_sample_def
      find_cache_info_locked_def create_cache_info_def MAXNS_def numeral_nat
      res_cache_add_stats_sample_locked_def Let_def revision_of_def sample_counters_def)

text \<open>
  Claim C4. Setting the same servers with another \<open>max_samples\<close> is to clear the sample
  statistics of all \<open>MAXNS\<close> slots and to raise the revision id by one. In the run
  \<open>two_servers_again\<close> the revision id goes from 2 to 3, but the counters of the second
  server, for which a sample was recorded, stay \<open>(1, 1)\<close>:
  \<open>res_cache_clear_stats_locked\<close> writes slot 0 in each of its \<open>MAXNS\<close> rounds.
\<close>

theorem set_nameservers_clears_slot_0_only:
  "fst two_servers_again = 0
   \<and> revision_of two_servers_sampled 30 = Some 2
   \<and> sample_counters two_servers_sampled 30 = [(0, 0), (1, 1), (0, 0), (0, 0)]
   \<and> revision_of (snd two_servers_again) 30 = Some 3
   \<and> sample_counters (snd two_servers_again) 30 = [(0, 0), (1, 1), (0, 0), (0, 0)]"
  using two_servers_sampled_counters
  by (simp add: two_servers_again_def two_servers_sampled_def two_servers_eval
      resolv_cache_add_resolver_stats_sample_def
      find_cache_info_locked_def create_cache_info_def MAXNS_def numeral_nat
      res_cache_add_stats_sample_locked_def Let_def revision_of_def sample_counters_def
      resolv_set_nameservers_def filter_nameservers_def example_libc_def
      resolv_set_experiment_params_def params8_def resolv_is_nameservers_equal_def
      res_cache_clear_stats_locked_def int32_def filter_domains_def insert_commute)


section \<open>Properties of the retry loop\<close>













end
